theory Spec2Isabelle
  imports Main
begin

section \<open>Python strings\<close>

text \<open>
  A Python \<open>str\<close> is a sequence of Unicode code points and is modelled as a list of
  natural numbers. \<open>u\<close> turns an ASCII literal into that form, so that the messages of
  the two scripts can be written as they stand in the source. Characters that an Isabelle
  literal cannot hold are written by their code point: 10 is the newline, 27 is ESC
  (\<open>\033\<close>), 34 the double quote, 39 the single quote, 92 the backslash.
\<close>

type_synonym pystr = "nat list"

definition u :: "string \<Rightarrow> pystr" where
  "u s = map of_char s"

fun py_join :: "pystr \<Rightarrow> pystr list \<Rightarrow> pystr" where
  "py_join sep [] = []"
| "py_join sep [x] = x"
| "py_join sep (x # y # ys) = x @ sep @ py_join sep (y # ys)"

text \<open>
  \<open>str.isspace\<close> for one code point: the white space characters of the Unicode
  database, as CPython's \<open>_PyUnicode_IsWhitespace\<close> lists them.
\<close>

definition py_isspace :: "nat \<Rightarrow> bool" where
  "py_isspace c \<longleftrightarrow>
     (9 \<le> c \<and> c \<le> 13) \<or> (28 \<le> c \<and> c \<le> 32) \<or> c = 133 \<or> c = 160 \<or> c = 5760
     \<or> (8192 \<le> c \<and> c \<le> 8202) \<or> c = 8232 \<or> c = 8233 \<or> c = 8239 \<or> c = 8287
     \<or> c = 12288"

text \<open>\<open>s.strip()\<close>: white space removed at both ends.\<close>

definition py_strip :: "pystr \<Rightarrow> pystr" where
  "py_strip s = rev (dropWhile py_isspace (rev (dropWhile py_isspace s)))"

text \<open>\<open>s.startswith(p)\<close>.\<close>

definition startswith :: "pystr \<Rightarrow> pystr \<Rightarrow> bool" where
  "startswith s p \<longleftrightarrow> take (length p) s = p"

text \<open>\<open>s.split()[0]\<close>: the first white-space separated word, if there is one.\<close>

definition first_word :: "pystr \<Rightarrow> pystr option" where
  "first_word s =
     (let t = dropWhile py_isspace s
      in if t = [] then None else Some (takeWhile (\<lambda>c. \<not> py_isspace c) t))"

text \<open>\<open>str(n)\<close> for an integer: decimal digits, with a minus sign when negative.\<close>

function dec_nat :: "nat \<Rightarrow> pystr" where
  "dec_nat n = (if n < 10 then [48 + n] else dec_nat (n div 10) @ [48 + n mod 10])"
  by pat_completeness auto
termination
  by (relation "measure id") auto

definition py_str_int :: "int \<Rightarrow> pystr" where
  "py_str_int i = (if i < 0 then 45 # dec_nat (nat (- i)) else dec_nat (nat i))"

definition hexdigit :: "nat \<Rightarrow> nat" where
  "hexdigit d = (if d < 10 then 48 + d else 87 + d)"

definition hex2 :: "nat \<Rightarrow> pystr" where
  "hex2 n = [hexdigit (n div 16 mod 16), hexdigit (n mod 16)]"

definition hex4 :: "nat \<Rightarrow> pystr" where
  "hex4 n = hex2 (n div 256) @ hex2 n"

definition hex8 :: "nat \<Rightarrow> pystr" where
  "hex8 n = hex4 (n div 65536) @ hex4 n"

section \<open>ANSI colours\<close>

text \<open>The class \<open>Colors\<close> of both scripts.\<close>

definition RESET :: pystr where "RESET = 27 # u ''[0m''"
definition RED :: pystr where "RED = 27 # u ''[91m''"
definition GREEN :: pystr where "GREEN = 27 # u ''[92m''"
definition YELLOW :: pystr where "YELLOW = 27 # u ''[93m''"
definition BLUE :: pystr where "BLUE = 27 # u ''[94m''"
definition MAGENTA :: pystr where "MAGENTA = 27 # u ''[95m''"
definition CYAN :: pystr where "CYAN = 27 # u ''[96m''"
definition BOLD :: pystr where "BOLD = 27 # u ''[1m''"
definition UNDERLINE :: pystr where "UNDERLINE = 27 # u ''[4m''"

section \<open>JSON values and the \<open>json\<close> module\<close>

text \<open>
  What \<open>json.loads\<close> returns and \<open>json.dumps\<close> takes: \<open>None\<close>, a \<open>bool\<close>, an
  \<open>int\<close>, a \<open>float\<close>, a \<open>str\<close>, a \<open>list\<close> or a \<open>dict\<close> with string keys. A
  \<open>dict\<close> keeps its insertion order, so it is an association list with distinct keys.
  A \<open>float\<close> is carried by the numeral it was read from (\<open>NaN\<close>, \<open>Infinity\<close> and
  \<open>-Infinity\<close> included); the binary value and its shortest printed form are not
  computed, and no statement below is about a float.
\<close>

datatype json =
    JNull
  | JBool bool
  | JInt int
  | JFloat pystr
  | JStr pystr
  | JArr "json list"
  | JObj "(pystr \<times> json) list"

subsection \<open>\<open>json.dumps\<close>\<close>

text \<open>
  \<open>encode_basestring_ascii\<close> (\<open>ensure_ascii\<close> is on by default): the backslash, the
  double quote and the five short escapes; every other character outside
  \<open>' '..'~'\<close> as \<open>\uXXXX\<close>, with a surrogate pair above U+FFFF.
\<close>

definition escape_char :: "nat \<Rightarrow> pystr" where
  "escape_char c =
     (if c = 92 then [92, 92]
      else if c = 34 then [92, 34]
      else if c = 8 then [92, 98]
      else if c = 12 then [92, 102]
      else if c = 10 then [92, 110]
      else if c = 13 then [92, 114]
      else if c = 9 then [92, 116]
      else if 32 \<le> c \<and> c \<le> 126 then [c]
      else if c < 65536 then [92, 117] @ hex4 c
      else [92, 117] @ hex4 (55296 + ((c - 65536) div 1024) mod 1024)
         @ [92, 117] @ hex4 (56320 + (c - 65536) mod 1024))"

definition escape_str :: "pystr \<Rightarrow> pystr" where
  "escape_str s = concat (map escape_char s)"

definition encode_basestring_ascii :: "pystr \<Rightarrow> pystr" where
  "encode_basestring_ascii s = [34] @ escape_str s @ [34]"

definition newline_indent :: "nat \<Rightarrow> nat \<Rightarrow> pystr" where
  "newline_indent n lvl = 10 # replicate (n * lvl) 32"

text \<open>
  \<open>dumps ind lvl v\<close> is \<open>json.dumps(v, indent=ind)\<close> at nesting depth \<open>lvl\<close>. Without
  \<open>indent\<close> the separators are \<open>', '\<close> and \<open>': '\<close>; with it, items are separated by
  a comma and a new line and the key separator stays \<open>': '\<close>. Empty containers are
  \<open>[]\<close> and \<open>{}\<close> in both modes.
\<close>

fun dumps :: "nat option \<Rightarrow> nat \<Rightarrow> json \<Rightarrow> pystr" where
  "dumps ind lvl JNull = u ''null''"
| "dumps ind lvl (JBool b) = (if b then u ''true'' else u ''false'')"
| "dumps ind lvl (JInt i) = py_str_int i"
| "dumps ind lvl (JFloat f) = f"
| "dumps ind lvl (JStr s) = encode_basestring_ascii s"
| "dumps ind lvl (JArr xs) =
     (if xs = [] then u ''[]''
      else case ind of
        None \<Rightarrow> [91] @ py_join (u '', '') (map (dumps ind lvl) xs) @ [93]
      | Some n \<Rightarrow> [91] @ newline_indent n (Suc lvl)
          @ py_join (44 # newline_indent n (Suc lvl)) (map (dumps ind (Suc lvl)) xs)
          @ newline_indent n lvl @ [93])"
| "dumps ind lvl (JObj kvs) =
     (if kvs = [] then u ''{}''
      else case ind of
        None \<Rightarrow> [123] @ py_join (u '', '')
          (map (\<lambda>(k, v). encode_basestring_ascii k @ u '': '' @ dumps ind lvl v) kvs) @ [125]
      | Some n \<Rightarrow> [123] @ newline_indent n (Suc lvl)
          @ py_join (44 # newline_indent n (Suc lvl))
              (map (\<lambda>(k, v). encode_basestring_ascii k @ u '': '' @ dumps ind (Suc lvl) v) kvs)
          @ newline_indent n lvl @ [125])"

definition json_dumps :: "json \<Rightarrow> pystr" where
  "json_dumps v = dumps None 0 v"

definition json_dumps_indent :: "nat \<Rightarrow> json \<Rightarrow> pystr" where
  "json_dumps_indent n v = dumps (Some n) 0 v"

section \<open>Exceptions\<close>

text \<open>
  The exceptions the two scripts can meet, each with the text that \<open>str(e)\<close> gives.
  \<open>RequestException\<close> stands for \<open>requests.exceptions.RequestException\<close> and its
  subclasses (connection errors, \<open>HTTPError\<close>, and the \<open>JSONDecodeError\<close> that
  \<open>response.json()\<close> raises, which \<open>requests\<close> derives from it since 2.27).
  The wording of the interpreter's own messages is CPython's.
\<close>

datatype py_exception =
    RequestException pystr
  | JSONDecodeError pystr
  | KeyError pystr
  | IndexError pystr
  | TypeError pystr
  | AttributeError pystr
  | EOFError pystr
  | RecursionError pystr
  | ValueError pystr

fun exc_str :: "py_exception \<Rightarrow> pystr" where
  "exc_str (RequestException m) = m"
| "exc_str (JSONDecodeError m) = m"
| "exc_str (KeyError m) = m"
| "exc_str (IndexError m) = m"
| "exc_str (TypeError m) = m"
| "exc_str (AttributeError m) = m"
| "exc_str (EOFError m) = m"
| "exc_str (RecursionError m) = m"
| "exc_str (ValueError m) = m"

subsection \<open>\<open>json.loads\<close>\<close>

text \<open>
  The decoder of the \<open>json\<close> module as CPython 3.11 runs it (the C scanner): a scanner
  that reads one token at an index, and the grammar of arrays and objects over those
  tokens. Every index below counts characters from the start of the text.
\<close>

definition is_digit :: "nat \<Rightarrow> bool" where
  "is_digit c \<longleftrightarrow> 48 \<le> c \<and> c \<le> 57"

definition hexval :: "nat \<Rightarrow> nat option" where
  "hexval c =
     (if 48 \<le> c \<and> c \<le> 57 then Some (c - 48)
      else if 97 \<le> c \<and> c \<le> 102 then Some (c - 87)
      else if 65 \<le> c \<and> c \<le> 70 then Some (c - 55)
      else None)"

text \<open>
  The four hexadecimal digits of a \<open>\uXXXX\<close> escape. The scanner asks for one more
  character behind them (a string cannot end there).
\<close>

definition decode_uXXXX :: "pystr \<Rightarrow> nat option" where
  "decode_uXXXX s =
     (if drop 4 s = [] then None
      else case map hexval (take 4 s) of
        [Some a, Some b, Some c, Some d] \<Rightarrow> Some (((a * 16 + b) * 16 + c) * 16 + d)
      | _ \<Rightarrow> None)"

text \<open>The one-letter escapes of a JSON string.\<close>

definition backslash :: "nat \<Rightarrow> nat option" where
  "backslash c =
     (if c = 34 \<or> c = 92 \<or> c = 47 then Some c
      else if c = 98 then Some 8
      else if c = 102 then Some 12
      else if c = 110 then Some 10
      else if c = 114 then Some 13
      else if c = 116 then Some 9
      else None)"

definition unterminated_string :: pystr where
  "unterminated_string = u ''Unterminated string starting at''"

definition invalid_uXXXX :: pystr where
  "invalid_uXXXX = u ''Invalid '' @ [92] @ u ''uXXXX escape''"

definition invalid_escape :: pystr where
  "invalid_escape = u ''Invalid '' @ [92] @ u ''escape''"

definition invalid_control :: pystr where
  "invalid_control = u ''Invalid control character at''"

text \<open>
  \<open>scanstring begin i cs\<close> reads a string whose opening quote is at index \<open>begin\<close>;
  \<open>cs\<close> is the text from index \<open>i\<close> on. It gives the decoded string and the number
  of characters read, closing quote included, or a message and the index it is
  reported at: the opening quote for a string that does not end, the character itself
  for a control character (strict mode is the default), the backslash for an unknown
  escape, the \<open>u\<close> for a bad \<open>\uXXXX\<close>. An escaped high surrogate followed by an
  escaped low surrogate is one code point.
\<close>

function scanstring :: "nat \<Rightarrow> nat \<Rightarrow> pystr \<Rightarrow> (pystr \<times> nat) + (pystr \<times> nat)" where
  "scanstring begin i [] = Inl (unterminated_string, begin)"
| "scanstring begin i (c # cs) =
     (if c = 34 then Inr ([], 1)
      else if c = 92 then
        (case cs of
           [] \<Rightarrow> Inl (unterminated_string, begin)
         | e # es \<Rightarrow>
             if e = 117 then
               (case decode_uXXXX es of
                  None \<Rightarrow> Inl (invalid_uXXXX, i + 1)
                | Some uni \<Rightarrow>
                    if 55296 \<le> uni \<and> uni \<le> 56319 \<and> take 2 (drop 4 es) = [92, 117] then
                      (case decode_uXXXX (drop 6 es) of
                         None \<Rightarrow> Inl (invalid_uXXXX, i + 7)
                       | Some uni2 \<Rightarrow>
                           if 56320 \<le> uni2 \<and> uni2 \<le> 57343 then
                             (case scanstring begin (i + 12) (drop 10 es) of
                                Inl err \<Rightarrow> Inl err
                              | Inr (s, n) \<Rightarrow>
                                  Inr ((65536 + (uni - 55296) * 1024 + (uni2 - 56320)) # s,
                                       n + 12))
                           else
                             (case scanstring begin (i + 6) (drop 4 es) of
                                Inl err \<Rightarrow> Inl err
                              | Inr (s, n) \<Rightarrow> Inr (uni # s, n + 6)))
                    else
                      (case scanstring begin (i + 6) (drop 4 es) of
                         Inl err \<Rightarrow> Inl err
                       | Inr (s, n) \<Rightarrow> Inr (uni # s, n + 6)))
             else
               (case backslash e of
                  None \<Rightarrow> Inl (invalid_escape, i)
                | Some d \<Rightarrow>
                    (case scanstring begin (i + 2) es of
                       Inl err \<Rightarrow> Inl err
                     | Inr (s, n) \<Rightarrow> Inr (d # s, n + 2))))
      else if c < 32 then Inl (invalid_control, i)
      else
        (case scanstring begin (i + 1) cs of
           Inl err \<Rightarrow> Inl err
         | Inr (s, n) \<Rightarrow> Inr (c # s, n + 1)))"
  by pat_completeness auto
termination
  by (relation "measure (\<lambda>(begin, i, cs). length cs)") auto

text \<open>
  A number: \<open>-?(0|[1-9][0-9]*)(\.[0-9]+)?([eE][-+]?[0-9]+)?\<close>, matched at the start of
  the text. It is an \<open>int\<close> when there is neither fraction nor exponent, a \<open>float\<close>
  otherwise. Turning the digits of an \<open>int\<close> into a number raises \<open>ValueError\<close> when
  there are more than \<open>sys.get_int_max_str_digits()\<close> of them, 4300 by default.
\<close>

definition int_part :: "pystr \<Rightarrow> pystr option" where
  "int_part s =
     (case s of
        [] \<Rightarrow> None
      | c # cs \<Rightarrow>
          if c = 48 then Some [48]
          else if is_digit c then Some (takeWhile is_digit s)
          else None)"

definition frac_part :: "pystr \<Rightarrow> pystr" where
  "frac_part s =
     (case s of
        c # d # ds \<Rightarrow> if c = 46 \<and> is_digit d then c # takeWhile is_digit (d # ds) else []
      | _ \<Rightarrow> [])"

definition exp_part :: "pystr \<Rightarrow> pystr" where
  "exp_part s =
     (case s of
        [] \<Rightarrow> []
      | e # es \<Rightarrow>
          if e = 101 \<or> e = 69 then
            (case es of
               [] \<Rightarrow> []
             | g # gs \<Rightarrow>
                 if g = 43 \<or> g = 45 then
                   (if takeWhile is_digit gs = [] then [] else e # g # takeWhile is_digit gs)
                 else
                   (if takeWhile is_digit es = [] then [] else e # takeWhile is_digit es))
          else [])"

definition nat_of_digits :: "pystr \<Rightarrow> nat" where
  "nat_of_digits ds = foldl (\<lambda>a c. 10 * a + (c - 48)) 0 ds"

definition max_str_digits :: nat where
  "max_str_digits = 4300"

text \<open>
  What the scanner finds where a scalar other than a string may start: a value and its
  length, an integer of too many digits, or nothing.
\<close>

datatype atom = Atom json nat | TooManyDigits nat | NoAtom

definition match_number :: "pystr \<Rightarrow> atom" where
  "match_number s =
     (let neg = (s \<noteq> [] \<and> hd s = 45);
          s1 = (if neg then tl s else s)
      in case int_part s1 of
           None \<Rightarrow> NoAtom
         | Some ds \<Rightarrow>
             let fr = frac_part (drop (length ds) s1);
                 ex = exp_part (drop (length ds + length fr) s1);
                 n = (if neg then 1 else 0) + length ds + length fr + length ex
             in if fr = [] \<and> ex = [] then
                  (if max_str_digits < length ds then TooManyDigits (length ds)
                   else Atom (JInt (if neg then - int (nat_of_digits ds)
                                    else int (nat_of_digits ds))) n)
                else Atom (JFloat (take n s)) n)"

definition scan_atom :: "pystr \<Rightarrow> atom" where
  "scan_atom s =
     (if startswith s (u ''null'') then Atom JNull 4
      else if startswith s (u ''true'') then Atom (JBool True) 4
      else if startswith s (u ''false'') then Atom (JBool False) 5
      else if startswith s (u ''NaN'') then Atom (JFloat (u ''NaN'')) 3
      else if startswith s (u ''Infinity'') then Atom (JFloat (u ''Infinity'')) 8
      else if startswith s (u ''-Infinity'') then Atom (JFloat (u ''-Infinity'')) 9
      else match_number s)"

datatype token =
    TLBracket
  | TRBracket
  | TLBrace
  | TRBrace
  | TComma
  | TColon
  | TValue json
  | TStringError pystr nat
  | TDigits nat
  | TBad

text \<open>
  The text as the decoder meets it, from left to right, each token with the index it
  starts at: white space (\<open>' \t\n\r'\<close>) skipped, the six punctuation marks, and the
  scalars. Scanning stops at the first place where no token can be read.
\<close>

definition is_json_ws :: "nat \<Rightarrow> bool" where
  "is_json_ws c \<longleftrightarrow> c = 32 \<or> c = 9 \<or> c = 10 \<or> c = 13"

function tokens :: "nat \<Rightarrow> pystr \<Rightarrow> (token \<times> nat) list" where
  "tokens i [] = []"
| "tokens i (c # cs) =
     (if is_json_ws c then tokens (i + 1) cs
      else if c = 91 then (TLBracket, i) # tokens (i + 1) cs
      else if c = 93 then (TRBracket, i) # tokens (i + 1) cs
      else if c = 123 then (TLBrace, i) # tokens (i + 1) cs
      else if c = 125 then (TRBrace, i) # tokens (i + 1) cs
      else if c = 44 then (TComma, i) # tokens (i + 1) cs
      else if c = 58 then (TColon, i) # tokens (i + 1) cs
      else if c = 34 then
        (case scanstring i (i + 1) cs of
           Inl (m, p) \<Rightarrow> [(TStringError m p, i)]
         | Inr (s, n) \<Rightarrow> (TValue (JStr s), i) # tokens (i + 1 + n) (drop n cs))
      else
        (case scan_atom (c # cs) of
           NoAtom \<Rightarrow> [(TBad, i)]
         | TooManyDigits d \<Rightarrow> [(TDigits d, i)]
         | Atom v n \<Rightarrow> (TValue v, i) # tokens (i + n) (drop (n - 1) cs)))"
  by pat_completeness auto
termination
  by (relation "measure (\<lambda>(i, cs). length cs)") auto

text \<open>
  A \<open>dict\<close> built pair by pair: a key met again keeps its place and takes the new
  value.
\<close>

fun dict_set :: "pystr \<Rightarrow> json \<Rightarrow> (pystr \<times> json) list \<Rightarrow> (pystr \<times> json) list" where
  "dict_set k v [] = [(k, v)]"
| "dict_set k v ((k', v') # kvs) =
     (if k = k' then (k, v) # kvs else (k', v') # dict_set k v kvs)"

text \<open>
  The grammar, as a machine over the tokens. A frame is an array or an object under
  construction, so the number of frames is the depth of nesting; the state says what the
  decoder expects next.
\<close>

datatype frame =
    ArrFrame "json list"
  | ObjFrame "(pystr \<times> json) list"
  | ObjPending "(pystr \<times> json) list" pystr

datatype pstate =
    ExpectValue
  | ArrStart
  | ObjStart
  | ExpectKey
  | ExpectColon
  | AfterValue
  | Done json

definition expecting_value :: pystr where
  "expecting_value = u ''Expecting value''"

definition expecting_name :: pystr where
  "expecting_name = u ''Expecting property name enclosed in double quotes''"

definition expecting_colon :: pystr where
  "expecting_colon = u ''Expecting '' @ [39] @ u '':'' @ [39] @ u '' delimiter''"

definition expecting_comma :: pystr where
  "expecting_comma = u ''Expecting '' @ [39] @ u '','' @ [39] @ u '' delimiter''"

definition extra_data :: pystr where
  "extra_data = u ''Extra data''"

text \<open>
  How decoding fails. \<open>Syntax m p d\<close>: the scanner reports \<open>m\<close> at index \<open>p\<close> from
  inside \<open>d\<close> open arrays and objects. \<open>NoValue p\<close>: no value starts at \<open>p\<close>; this
  and \<open>ExtraData p\<close> are reported by the Python code around the scanner.
  \<open>TooDeep a\<close>: one array (\<open>a\<close>) or object more cannot be opened.
  \<open>Digits n\<close>: an integer of \<open>n\<close> digits, over the limit.
\<close>

datatype failure =
    Syntax pystr nat nat
  | NoValue nat
  | ExtraData nat
  | TooDeep bool
  | Digits nat

text \<open>A finished value goes into the frame that waits for it.\<close>

fun complete :: "json \<Rightarrow> frame list \<Rightarrow> pstate \<times> frame list" where
  "complete v [] = (Done v, [])"
| "complete v (ArrFrame es # st) = (AfterValue, ArrFrame (es @ [v]) # st)"
| "complete v (ObjPending ms k # st) = (AfterValue, ObjFrame (dict_set k v ms) # st)"
| "complete v (ObjFrame ms # st) = (AfterValue, ObjFrame ms # st)"

text \<open>
  One token. \<open>room\<close> is the number of arrays and objects that may be open at the same
  time.
\<close>

definition value_step ::
  "nat \<Rightarrow> frame list \<Rightarrow> token \<Rightarrow> nat \<Rightarrow> failure + (pstate \<times> frame list)" where
  "value_step room st t p =
     (case t of
        TValue v \<Rightarrow> Inr (complete v st)
      | TLBracket \<Rightarrow>
          if room \<le> length st then Inl (TooDeep True) else Inr (ArrStart, ArrFrame [] # st)
      | TLBrace \<Rightarrow>
          if room \<le> length st then Inl (TooDeep False) else Inr (ObjStart, ObjFrame [] # st)
      | TStringError m q \<Rightarrow> Inl (Syntax m q (length st))
      | TDigits n \<Rightarrow> Inl (Digits n)
      | _ \<Rightarrow> Inl (NoValue p))"

definition key_step ::
  "frame list \<Rightarrow> token \<Rightarrow> nat \<Rightarrow> failure + (pstate \<times> frame list)" where
  "key_step st t p =
     (case t of
        TValue (JStr k) \<Rightarrow>
          (case st of
             ObjFrame ms # st' \<Rightarrow> Inr (ExpectColon, ObjPending ms k # st')
           | _ \<Rightarrow> Inl (Syntax expecting_name p (length st)))
      | TStringError m q \<Rightarrow> Inl (Syntax m q (length st))
      | _ \<Rightarrow> Inl (Syntax expecting_name p (length st)))"

fun pstep ::
  "nat \<Rightarrow> pstate \<Rightarrow> frame list \<Rightarrow> token \<times> nat \<Rightarrow> failure + (pstate \<times> frame list)" where
  "pstep room (Done v) st (t, p) = Inl (ExtraData p)"
| "pstep room ExpectColon st (t, p) =
     (if t = TColon then Inr (ExpectValue, st)
      else Inl (Syntax expecting_colon p (length st)))"
| "pstep room AfterValue st (t, p) =
     (case st of
        ArrFrame es # st' \<Rightarrow>
          if t = TComma then Inr (ExpectValue, st)
          else if t = TRBracket then Inr (complete (JArr es) st')
          else Inl (Syntax expecting_comma p (length st))
      | ObjFrame ms # st' \<Rightarrow>
          if t = TComma then Inr (ExpectKey, st)
          else if t = TRBrace then Inr (complete (JObj ms) st')
          else Inl (Syntax expecting_comma p (length st))
      | _ \<Rightarrow> Inl (Syntax expecting_comma p (length st)))"
| "pstep room ObjStart st (t, p) =
     (case (t, st) of
        (TRBrace, ObjFrame ms # st') \<Rightarrow> Inr (complete (JObj ms) st')
      | _ \<Rightarrow> key_step st t p)"
| "pstep room ExpectKey st (t, p) = key_step st t p"
| "pstep room ExpectValue st (t, p) = value_step room st t p"
| "pstep room ArrStart st (t, p) =
     (case (t, st) of
        (TRBracket, ArrFrame es # st') \<Rightarrow> Inr (complete (JArr es) st')
      | _ \<Rightarrow> value_step room st t p)"

text \<open>What the decoder reports when the text, of length \<open>n\<close>, ends in a given state.\<close>

fun at_end :: "nat \<Rightarrow> pstate \<Rightarrow> frame list \<Rightarrow> failure + json" where
  "at_end n (Done v) st = Inr v"
| "at_end n ExpectValue st = Inl (NoValue n)"
| "at_end n ArrStart st = Inl (NoValue n)"
| "at_end n ObjStart st = Inl (Syntax expecting_name n (length st))"
| "at_end n ExpectKey st = Inl (Syntax expecting_name n (length st))"
| "at_end n ExpectColon st = Inl (Syntax expecting_colon n (length st))"
| "at_end n AfterValue st = Inl (Syntax expecting_comma n (length st))"

fun parse ::
  "nat \<Rightarrow> nat \<Rightarrow> pstate \<Rightarrow> frame list \<Rightarrow> (token \<times> nat) list \<Rightarrow> failure + json" where
  "parse room n s st [] = at_end n s st"
| "parse room n s st (t # ts) =
     (case pstep room s st t of
        Inl f \<Rightarrow> Inl f
      | Inr (s', st') \<Rightarrow> parse room n s' st' ts)"

text \<open>
  The text of a \<open>JSONDecodeError\<close>: the message, then the line, the column and the
  index. Lines are separated by the newline character only.
\<close>

definition errmsg :: "pystr \<Rightarrow> pystr \<Rightarrow> nat \<Rightarrow> pystr" where
  "errmsg msg doc pos =
     msg @ u '': line '' @ dec_nat (count_list (take pos doc) 10 + 1)
     @ u '' column ''
     @ dec_nat (length (takeWhile (\<lambda>c. c \<noteq> 10) (rev (take pos doc))) + 1)
     @ u '' (char '' @ dec_nat pos @ u '')''"

definition recursion_exceeded :: pystr where
  "recursion_exceeded = u ''maximum recursion depth exceeded''"

definition digits_exceeded :: "nat \<Rightarrow> pystr" where
  "digits_exceeded n =
     u ''Exceeds the limit ('' @ dec_nat max_str_digits
     @ u '' digits) for integer string conversion: value has '' @ dec_nat n
     @ u '' digits; use sys.set_int_max_str_digits() to increase the limit''"

text \<open>
  The exception a failure ends in. The scanner counts each open array or object as a
  level of recursion. When it reports an error it builds the \<open>JSONDecodeError\<close> on the
  spot, which takes Python calls of its own: from within the last three levels that
  \<open>room\<close> allows, the attempt ends in a \<open>RecursionError\<close> instead.
\<close>

definition raise_failure :: "nat \<Rightarrow> pystr \<Rightarrow> failure \<Rightarrow> py_exception" where
  "raise_failure room doc f =
     (case f of
        Syntax m p d \<Rightarrow>
          if d + 3 \<le> room then JSONDecodeError (errmsg m doc p)
          else if d + 1 = room then RecursionError recursion_exceeded
          else RecursionError (recursion_exceeded @ u '' while calling a Python object'')
      | NoValue p \<Rightarrow> JSONDecodeError (errmsg expecting_value doc p)
      | ExtraData p \<Rightarrow> JSONDecodeError (errmsg extra_data doc p)
      | TooDeep a \<Rightarrow>
          RecursionError
            (recursion_exceeded @ u '' while decoding a JSON ''
             @ (if a then u ''array'' else u ''object'') @ u '' from a unicode string'')
      | Digits n \<Rightarrow> ValueError (digits_exceeded n))"

text \<open>
  \<open>sys.getrecursionlimit()\<close>, which neither script changes. \<open>json_loads_at k s\<close> is
  \<open>json.loads(s)\<close> called from a function that runs \<open>k\<close> frames deep, the module
  being the first: \<open>loads\<close>, \<open>decode\<close>, \<open>raw_decode\<close> and the call of the scanner
  come on top, and the rest of the limit is the room for arrays and objects.
\<close>

definition recursion_limit :: nat where
  "recursion_limit = 1000"

definition json_loads_at :: "nat \<Rightarrow> pystr \<Rightarrow> py_exception + json" where
  "json_loads_at k s =
     (if startswith s [65279] then
        Inl (JSONDecodeError (errmsg (u ''Unexpected UTF-8 BOM (decode using utf-8-sig)'') s 0))
      else
        (case parse (recursion_limit - (k + 4)) (length s) ExpectValue [] (tokens 0 s) of
           Inl f \<Rightarrow> Inl (raise_failure (recursion_limit - (k + 4)) s f)
         | Inr v \<Rightarrow> Inr v))"

text \<open>\<open>json.loads(s)\<close> as \<open>main\<close> calls it: \<open>main\<close> runs two frames deep.\<close>

definition json_loads :: "pystr \<Rightarrow> py_exception + json" where
  "json_loads s = json_loads_at 2 s"

section \<open>Python values at run time\<close>

text \<open>Sequencing of steps that may raise.\<close>

definition and_then :: "'e + 'a \<Rightarrow> ('a \<Rightarrow> 'e + 'b) \<Rightarrow> 'e + 'b" where
  "and_then r f = (case r of Inl e \<Rightarrow> Inl e | Inr x \<Rightarrow> f x)"

fun type_name :: "json \<Rightarrow> pystr" where
  "type_name JNull = u ''NoneType''"
| "type_name (JBool b) = u ''bool''"
| "type_name (JInt i) = u ''int''"
| "type_name (JFloat f) = u ''float''"
| "type_name (JStr s) = u ''str''"
| "type_name (JArr xs) = u ''list''"
| "type_name (JObj kvs) = u ''dict''"

text \<open>
  Truth value, as \<open>if x:\<close> and \<open>not x\<close> test it. A float is false when it is zero,
  that is when its numeral has no digit other than 0 before the exponent.
\<close>

definition float_is_zero :: "pystr \<Rightarrow> bool" where
  "float_is_zero f \<longleftrightarrow>
     f \<noteq> u ''NaN'' \<and> f \<noteq> u ''Infinity'' \<and> f \<noteq> u ''-Infinity''
     \<and> (\<forall>c \<in> set (takeWhile (\<lambda>c. c \<noteq> 101 \<and> c \<noteq> 69) f). \<not> (49 \<le> c \<and> c \<le> 57))"

fun py_truthy :: "json \<Rightarrow> bool" where
  "py_truthy JNull = False"
| "py_truthy (JBool b) = b"
| "py_truthy (JInt i) = (i \<noteq> 0)"
| "py_truthy (JFloat f) = (\<not> float_is_zero f)"
| "py_truthy (JStr s) = (s \<noteq> [])"
| "py_truthy (JArr xs) = (xs \<noteq> [])"
| "py_truthy (JObj kvs) = (kvs \<noteq> [])"

text \<open>
  \<open>repr\<close> of a string: single quotes, unless the string has a single quote and no
  double quote; the quote, the backslash, tab, newline and carriage return escaped;
  other characters that are not printable as \<open>\xNN\<close>, \<open>\uNNNN\<close> or \<open>\UNNNNNNNN\<close>.
  Below U+0100 the characters that are not printable are the controls, U+007F to
  U+00A0 and U+00AD; above, the interpreter's Unicode tables decide, and every
  character is taken as printable here.
\<close>

definition is_printable :: "nat \<Rightarrow> bool" where
  "is_printable c \<longleftrightarrow> 32 \<le> c \<and> \<not> (127 \<le> c \<and> c \<le> 160) \<and> c \<noteq> 173"

definition repr_char :: "nat \<Rightarrow> nat \<Rightarrow> pystr" where
  "repr_char q c =
     (if c = q \<or> c = 92 then [92, c]
      else if c = 9 then [92, 116]
      else if c = 10 then [92, 110]
      else if c = 13 then [92, 114]
      else if is_printable c then [c]
      else if c < 256 then [92, 120] @ hex2 c
      else if c < 65536 then [92, 117] @ hex4 c
      else [92, 85] @ hex8 c)"

definition repr_str :: "pystr \<Rightarrow> pystr" where
  "repr_str s =
     (let q = (if 39 \<in> set s \<and> 34 \<notin> set s then 34 else 39)
      in [q] @ concat (map (repr_char q) s) @ [q])"

definition repr_float :: "pystr \<Rightarrow> pystr" where
  "repr_float f =
     (if f = u ''NaN'' then u ''nan''
      else if f = u ''Infinity'' then u ''inf''
      else if f = u ''-Infinity'' then u ''-inf''
      else f)"

fun py_repr :: "json \<Rightarrow> pystr" where
  "py_repr JNull = u ''None''"
| "py_repr (JBool b) = (if b then u ''True'' else u ''False'')"
| "py_repr (JInt i) = py_str_int i"
| "py_repr (JFloat f) = repr_float f"
| "py_repr (JStr s) = repr_str s"
| "py_repr (JArr xs) = [91] @ py_join (u '', '') (map py_repr xs) @ [93]"
| "py_repr (JObj kvs) =
     [123] @ py_join (u '', '') (map (\<lambda>(k, v). repr_str k @ u '': '' @ py_repr v) kvs) @ [125]"

text \<open>\<open>str(x)\<close>, which is what an f-string puts in place of \<open>{x}\<close>.\<close>

fun py_str :: "json \<Rightarrow> pystr" where
  "py_str (JStr s) = s"
| "py_str v = py_repr v"

text \<open>\<open>x[k]\<close> for a string key \<open>k\<close>.\<close>

fun getitem_key :: "json \<Rightarrow> pystr \<Rightarrow> py_exception + json" where
  "getitem_key (JObj kvs) k =
     (case map_of kvs k of
        Some v \<Rightarrow> Inr v
      | None \<Rightarrow> Inl (KeyError (repr_str k)))"
| "getitem_key (JArr xs) k =
     Inl (TypeError (u ''list indices must be integers or slices, not str''))"
| "getitem_key (JStr s) k =
     Inl (TypeError (u ''string indices must be integers, not '' @ [39] @ u ''str'' @ [39]))"
| "getitem_key v k =
     Inl (TypeError ([39] @ type_name v @ [39] @ u '' object is not subscriptable''))"

text \<open>\<open>x[0]\<close>. A \<open>dict\<close> read from JSON has no key \<open>0\<close>.\<close>

fun getitem_0 :: "json \<Rightarrow> py_exception + json" where
  "getitem_0 (JArr xs) =
     (case xs of
        [] \<Rightarrow> Inl (IndexError (u ''list index out of range''))
      | x # _ \<Rightarrow> Inr x)"
| "getitem_0 (JStr s) =
     (case s of
        [] \<Rightarrow> Inl (IndexError (u ''string index out of range''))
      | c # _ \<Rightarrow> Inr (JStr [c]))"
| "getitem_0 (JObj kvs) = Inl (KeyError (u ''0''))"
| "getitem_0 v =
     Inl (TypeError ([39] @ type_name v @ [39] @ u '' object is not subscriptable''))"

text \<open>\<open>x.get(k, d)\<close>: only a \<open>dict\<close> has the method.\<close>

fun dict_get :: "json \<Rightarrow> pystr \<Rightarrow> json \<Rightarrow> py_exception + json" where
  "dict_get (JObj kvs) k d =
     (case map_of kvs k of
        Some v \<Rightarrow> Inr v
      | None \<Rightarrow> Inr d)"
| "dict_get v k d =
     Inl (AttributeError ([39] @ type_name v @ [39] @ u '' object has no attribute ''
                          @ [39] @ u ''get'' @ [39]))"

text \<open>
  What \<open>for x in v\<close> runs over: the items of a list, the keys of a \<open>dict\<close>, the
  characters of a string.
\<close>

fun py_iter :: "json \<Rightarrow> py_exception + json list" where
  "py_iter (JArr xs) = Inr xs"
| "py_iter (JObj kvs) = Inr (map (\<lambda>kv. JStr (fst kv)) kvs)"
| "py_iter (JStr s) = Inr (map (\<lambda>c. JStr [c]) s)"
| "py_iter v = Inl (TypeError ([39] @ type_name v @ [39] @ u '' object is not iterable''))"

text \<open>\<open>json.loads(x)\<close> for a value \<open>x\<close> taken out of a decoded document.\<close>

fun loads_value :: "json \<Rightarrow> py_exception + json" where
  "loads_value (JStr s) = json_loads s"
| "loads_value v =
     Inl (TypeError (u ''the JSON object must be str, bytes or bytearray, not '' @ type_name v))"

section \<open>The query tool (\<open>vortexai.py\<close>)\<close>

subsection \<open>What the tool runs in\<close>

text \<open>
  A path of the file system holds a directory or a regular file. A regular file holds
  characters (\<open>Inr\<close>: what its bytes decode to as UTF-8), or opening and reading it
  raises (no permission, bytes that are not UTF-8); \<open>Inl\<close> holds the text of that
  exception.
\<close>

datatype node = Directory | File "pystr + pystr"

text \<open>
  Both files are opened with \<open>open(path, 'r', encoding='utf-8')\<close>: text mode, with
  universal newlines. What \<open>read()\<close> returns has a newline character for every
  carriage return followed by a newline, and for every other carriage return.
\<close>

fun universal_newlines :: "pystr \<Rightarrow> pystr" where
  "universal_newlines [] = []"
| "universal_newlines [c] = [if c = 13 then 10 else c]"
| "universal_newlines (c # d # cs) =
     (if c = 13 \<and> d = 10 then 10 # universal_newlines cs
      else if c = 13 then 10 # universal_newlines (d # cs)
      else c # universal_newlines (d # cs))"

type_synonym filesystem = "pystr \<Rightarrow> node option"

record request =
  url :: pystr
  headers :: "(pystr \<times> pystr) list"
  data :: pystr

record response =
  status_code :: nat
  reason :: pystr
  resp_url :: pystr
  resp_text :: pystr

text \<open>
  The world of one run: the process environment, the file system, which paths refuse to
  be opened for writing (with the text of the exception), and the remote end, which
  answers a request or makes \<open>requests.post\<close> raise (\<open>Inl\<close>, with the text of the
  exception).
\<close>

record world =
  environ :: "pystr \<Rightarrow> pystr option"
  files :: filesystem
  write_fails :: "pystr \<Rightarrow> pystr option"
  server :: "request \<Rightarrow> pystr + response"

text \<open>
  What a run of either script does, in order: the lines it prints, the file system
  calls it makes, the HTTP requests it sends; for the setup tool also the prompt it
  reads from, the modules it tries to import, the text it appends to a file and the
  command lines it hands to \<open>subprocess.run(..., shell=True)\<close>.
\<close>

datatype event =
    Print pystr
  | Exists pystr
  | IsFile pystr
  | OpenRead pystr
  | OpenWrite pystr
  | Post request
  | Input pystr
  | Import pystr
  | OpenAppend pystr
  | WriteText pystr pystr
  | Run pystr

text \<open>
  The result of a run: its events, the file system it leaves, and the exception that
  ended it when one escaped every handler.
\<close>

record run =
  events :: "event list"
  files_after :: filesystem
  uncaught :: "py_exception option"

definition http_requests :: "event list \<Rightarrow> request list" where
  "http_requests evs = concat (map (\<lambda>e. case e of Post r \<Rightarrow> [r] | _ \<Rightarrow> []) evs)"

definition printed :: "event list \<Rightarrow> pystr list" where
  "printed evs = concat (map (\<lambda>e. case e of Print s \<Rightarrow> [s] | _ \<Rightarrow> []) evs)"

definition file_accesses :: "event list \<Rightarrow> pystr list" where
  "file_accesses evs =
     concat (map (\<lambda>e. case e of
                         Exists p \<Rightarrow> [p] | IsFile p \<Rightarrow> [p]
                       | OpenRead p \<Rightarrow> [p] | OpenWrite p \<Rightarrow> [p]
                       | _ \<Rightarrow> []) evs)"

definition opened_for_writing :: "event list \<Rightarrow> pystr list" where
  "opened_for_writing evs = concat (map (\<lambda>e. case e of OpenWrite p \<Rightarrow> [p] | _ \<Rightarrow> []) evs)"

subsection \<open>1. Load the API key (lines 38 to 65)\<close>

definition api_key_file_path :: pystr where
  "api_key_file_path = u ''/usr/share/vortexai/apikey.txt''"

definition env_var_name :: pystr where
  "env_var_name = u ''GEMINI_API_KEY''"

definition checking_line :: pystr where
  "checking_line =
     YELLOW @ env_var_name @ u '' environment variable not set. Checking '' @ [39]
     @ api_key_file_path @ [39] @ u ''...'' @ RESET"

definition key_file_empty_line :: pystr where
  "key_file_empty_line =
     RED @ u ''Error: API key file '' @ [39] @ api_key_file_path @ [39] @ u '' is empty.''
     @ RESET"

definition key_loaded_line :: pystr where
  "key_loaded_line =
     GREEN @ u ''API key successfully loaded from '' @ [39] @ api_key_file_path @ [39]
     @ u ''.'' @ RESET"

definition key_file_not_found_line :: pystr where
  "key_file_not_found_line =
     RED @ u ''Error: API key file not found at '' @ [39] @ api_key_file_path @ [39]
     @ u ''.'' @ RESET"

definition please_set_line :: pystr where
  "please_set_line =
     YELLOW @ u ''Please set '' @ env_var_name @ u '' environment variable OR create ''
     @ [39] @ api_key_file_path @ [39] @ u '' with your API key.'' @ RESET"

definition key_read_error_line :: "pystr \<Rightarrow> pystr" where
  "key_read_error_line e =
     RED @ u ''Error reading API key from file '' @ [39] @ api_key_file_path @ [39]
     @ u '': '' @ e @ RESET"

text \<open>
  The fallback of lines 42 to 60: the file is looked for, read (in text mode) and
  stripped. \<open>None\<close> is the early \<open>return\<close> of \<open>main\<close>.
\<close>

definition api_key_from_file :: "world \<Rightarrow> pystr option \<times> event list" where
  "api_key_from_file w =
     (case files w api_key_file_path of
        None \<Rightarrow>
          (None, [Print checking_line, Exists api_key_file_path,
                  Print key_file_not_found_line, Print please_set_line])
      | Some Directory \<Rightarrow>
          (None, [Print checking_line, Exists api_key_file_path, IsFile api_key_file_path,
                  Print key_file_not_found_line, Print please_set_line])
      | Some (File content) \<Rightarrow>
          (case content of
             Inl e \<Rightarrow>
               (None, [Print checking_line, Exists api_key_file_path,
                       IsFile api_key_file_path, OpenRead api_key_file_path,
                       Print (key_read_error_line e)])
           | Inr txt \<Rightarrow>
               if py_strip (universal_newlines txt) = [] then
                 (None, [Print checking_line, Exists api_key_file_path,
                         IsFile api_key_file_path, OpenRead api_key_file_path,
                         Print key_file_empty_line])
               else
                 (Some (py_strip (universal_newlines txt)),
                  [Print checking_line, Exists api_key_file_path,
                   IsFile api_key_file_path, OpenRead api_key_file_path,
                   Print key_loaded_line])))"

text \<open>
  \<open>api_key = os.getenv("GEMINI_API_KEY")\<close>, then \<open>if not api_key:\<close> the fallback.
  An unset variable is \<open>None\<close>, and both \<open>None\<close> and the empty string are false.
\<close>

definition load_api_key :: "world \<Rightarrow> pystr option \<times> event list" where
  "load_api_key w =
     (case environ w env_var_name of
        None \<Rightarrow> api_key_from_file w
      | Some k \<Rightarrow> if k = [] then api_key_from_file w else (Some k, []))"

definition fatal_lines :: "event list" where
  "fatal_lines =
     [Print (RED @ u ''Fatal Error: No Gemini API key found. Exiting.'' @ RESET),
      Print (YELLOW @ u ''Please set GEMINI_API_KEY environment variable OR create /usr/share/vortexai/apikey.txt with your API key.'' @ RESET)]"

subsection \<open>2. Read the file to analyse (lines 67 to 81)\<close>

definition read_results_file :: "world \<Rightarrow> pystr \<Rightarrow> pystr option \<times> event list" where
  "read_results_file w file_path =
     (case files w file_path of
        None \<Rightarrow>
          (None, [Exists file_path,
                  Print (RED @ u ''Error: File not found at '' @ [39] @ file_path @ [39]
                         @ RESET)])
      | Some Directory \<Rightarrow>
          (None, [Exists file_path, IsFile file_path,
                  Print (RED @ u ''Error: Path '' @ [39] @ file_path @ [39]
                         @ u '' is not a file.'' @ RESET)])
      | Some (File content) \<Rightarrow>
          (case content of
             Inl e \<Rightarrow>
               (None, [Exists file_path, IsFile file_path, OpenRead file_path,
                       Print (RED @ u ''Error reading file '' @ [39] @ file_path @ [39]
                              @ u '': '' @ e @ RESET)])
           | Inr txt \<Rightarrow>
               (Some (universal_newlines txt),
                [Exists file_path, IsFile file_path, OpenRead file_path])))"

subsection \<open>3. The prompt (lines 84 to 97)\<close>

definition prompt_head :: pystr where
  "prompt_head = [10] @ u ''Analyze the following content and ''"

definition prompt_middle :: pystr where
  \<open>prompt_middle =
     u ''.'' @ [10]
     @ u ''Provide your analysis in a structured JSON format. The JSON should be an array of vulnerability objects.'' @ [10]
     @ u ''Each vulnerability object must contain:'' @ [10]
     @ u ''- "name": A concise name for the vulnerability.'' @ [10]
     @ u ''- "description": A short, parsed explanation of the vulnerability.'' @ [10]
     @ u ''- "metasploit_modules": An array of suggested Metasploit module paths (e.g., "exploit/windows/smb/ms17_010_eternalblue"). If none, use an empty array.'' @ [10]
     @ u ''- "exploit_links": An array of relevant URLs for exploit details or PoCs. If none, use an empty array.'' @ [10]
     @ u ''- "other_tools_and_formats": An array of other relevant tools and their likely output formats (e.g., "Nessus (HTML, XML, CSV)", "Nmap (XML, Nmap Script Output)", "Nikto (TXT, HTML)"). If none, use an empty array.'' @ [10]
     @ [10]
     @ u ''--- Content Start ---'' @ [10]\<close>

definition prompt_tail :: pystr where
  "prompt_tail = [10] @ u ''--- Content End ---'' @ [10]"

text \<open>The f-string: the query and the file content are put in as they are.\<close>

definition build_prompt :: "pystr \<Rightarrow> pystr \<Rightarrow> pystr" where
  "build_prompt query file_content =
     prompt_head @ query @ prompt_middle @ file_content @ prompt_tail"

subsection \<open>4. The request (lines 102 to 141)\<close>

definition string_array_schema :: json where
  "string_array_schema =
     JObj [(u ''type'', JStr (u ''ARRAY'')),
           (u ''items'', JObj [(u ''type'', JStr (u ''STRING''))])]"

definition generation_config :: json where
  "generation_config =
     JObj [(u ''responseMimeType'', JStr (u ''application/json'')),
           (u ''responseSchema'',
            JObj [(u ''type'', JStr (u ''ARRAY'')),
                  (u ''items'',
                   JObj [(u ''type'', JStr (u ''OBJECT'')),
                         (u ''properties'',
                          JObj [(u ''name'', JObj [(u ''type'', JStr (u ''STRING''))]),
                                (u ''description'', JObj [(u ''type'', JStr (u ''STRING''))]),
                                (u ''metasploit_modules'', string_array_schema),
                                (u ''exploit_links'', string_array_schema),
                                (u ''other_tools_and_formats'', string_array_schema)]),
                         (u ''required'',
                          JArr [JStr (u ''name''), JStr (u ''description''),
                                JStr (u ''metasploit_modules''), JStr (u ''exploit_links''),
                                JStr (u ''other_tools_and_formats'')])])])]"

definition chat_history :: "pystr \<Rightarrow> json" where
  "chat_history prompt =
     JArr [JObj [(u ''role'', JStr (u ''user'')),
                 (u ''parts'', JArr [JObj [(u ''text'', JStr prompt)]])]]"

definition payload :: "pystr \<Rightarrow> json" where
  "payload prompt =
     JObj [(u ''contents'', chat_history prompt),
           (u ''generationConfig'', generation_config)]"

definition apiUrl :: "pystr \<Rightarrow> pystr" where
  "apiUrl api_key =
     u ''https://generativelanguage.googleapis.com/v1beta/models/gemini-2.0-flash:generateContent?key=''
     @ api_key"

text \<open>
  \<open>requests.post(apiUrl, headers={'Content-Type': 'application/json'},
  data=json.dumps(payload))\<close>: the body that goes on the wire is the serialised payload.
\<close>

definition build_request :: "pystr \<Rightarrow> pystr \<Rightarrow> request" where
  "build_request api_key prompt =
     \<lparr>url = apiUrl api_key,
      headers = [(u ''Content-Type'', u ''application/json'')],
      data = json_dumps (payload prompt)\<rparr>"

text \<open>
  The serialised payload on both sides of the prompt: \<open>json.dumps\<close> writes the
  prompt, escaped, between these two texts.
\<close>

definition body_before_prompt :: pystr where
  \<open>body_before_prompt = u ''{"contents": [{"role": "user", "parts": [{"text": "''\<close>

definition body_after_prompt :: pystr where
  \<open>body_after_prompt =
     u ''"}]}], "generationConfig": '' @ json_dumps generation_config @ u ''}''\<close>

text \<open>
  \<open>response.raise_for_status()\<close> raises an \<open>HTTPError\<close> for the statuses 400 to 599
  ("HTTP errors (4xx or 5xx)", line 141) and for no other.
\<close>

definition raise_for_status :: "response \<Rightarrow> py_exception option" where
  "raise_for_status r =
     (if 400 \<le> status_code r \<and> status_code r < 500 then
        Some (RequestException (py_str_int (int (status_code r)) @ u '' Client Error: ''
                                @ reason r @ u '' for url: '' @ resp_url r))
      else if 500 \<le> status_code r \<and> status_code r < 600 then
        Some (RequestException (py_str_int (int (status_code r)) @ u '' Server Error: ''
                                @ reason r @ u '' for url: '' @ resp_url r))
      else None)"

text \<open>
  \<open>response.json()\<close>: \<open>json.loads\<close> on the text of the answer, called from that
  method, one frame further down than \<open>main\<close>. The method raises the decoder's
  \<open>JSONDecodeError\<close> again as its own, which is a \<open>RequestException\<close> with the same
  text; any other exception passes through.
\<close>

definition response_json :: "response \<Rightarrow> py_exception + json" where
  "response_json r =
     (case json_loads_at 3 (resp_text r) of
        Inl (JSONDecodeError m) \<Rightarrow> Inl (RequestException m)
      | Inl e \<Rightarrow> Inl e
      | Inr v \<Rightarrow> Inr v)"

text \<open>\<open>response.json()["candidates"][0]["content"]["parts"][0]["text"]\<close> (line 143).\<close>

definition result_text :: "json \<Rightarrow> py_exception + json" where
  "result_text envelope =
     and_then (getitem_key envelope (u ''candidates'')) (\<lambda>candidates.
     and_then (getitem_0 candidates) (\<lambda>candidate.
     and_then (getitem_key candidate (u ''content'')) (\<lambda>content.
     and_then (getitem_key content (u ''parts'')) (\<lambda>parts.
     and_then (getitem_0 parts) (\<lambda>part.
     getitem_key part (u ''text''))))))"

subsection \<open>The log file (lines 146 to 153)\<close>

text \<open>
  \<open>open(log_file_path, 'w')\<close> and the write. A failure is caught on the spot and
  reported as a warning; the file system is then as it was. The file is written in text
  mode, where a newline character is stored as \<open>os.linesep\<close>: the model takes that to
  be the newline character itself, as it is on every system but Windows.
\<close>

definition save_log :: "world \<Rightarrow> pystr \<Rightarrow> json \<Rightarrow> event list \<times> filesystem" where
  "save_log w log_file_path ai_response_json =
     (case (if files w log_file_path = Some Directory
            then Some (u ''[Errno 21] Is a directory: '' @ repr_str log_file_path)
            else write_fails w log_file_path) of
        Some e \<Rightarrow>
          ([OpenWrite log_file_path,
            Print (YELLOW @ u ''Warning: Could not save JSON to log file '' @ log_file_path
                   @ u '': '' @ e @ RESET)],
           files w)
      | None \<Rightarrow>
          ([OpenWrite log_file_path,
            Print (BLUE @ u ''Raw JSON response saved to: '' @ log_file_path @ RESET)],
           (files w)(log_file_path \<mapsto> File (Inr (json_dumps_indent 2 ai_response_json)))))"

subsection \<open>Rendering (lines 156 to 190)\<close>

text \<open>
  Printing goes on until an exception is raised: a step gives the lines printed so far
  and the exception, if any.
\<close>

type_synonym printing = "event list \<times> py_exception option"

definition then_print :: "printing \<Rightarrow> printing \<Rightarrow> printing" where
  "then_print a b =
     (case a of
        (evs, Some e) \<Rightarrow> (evs, Some e)
      | (evs, None) \<Rightarrow> (evs @ fst b, snd b))"

text \<open>
  One of the three list fields: \<open>vuln.get(key)\<close>, then the title and a bullet per
  item, or the title and the placeholder when the value is false (absent, \<open>None\<close>,
  empty).
\<close>

definition render_list :: "json \<Rightarrow> pystr \<Rightarrow> pystr \<Rightarrow> pystr \<Rightarrow> printing" where
  "render_list vuln key title placeholder =
     (case dict_get vuln key JNull of
        Inl e \<Rightarrow> ([], Some e)
      | Inr v \<Rightarrow>
          if py_truthy v then
            (case py_iter v of
               Inl e \<Rightarrow> ([Print title], Some e)
             | Inr items \<Rightarrow>
                 (Print title # map (\<lambda>item. Print (u ''    - '' @ py_str item)) items, None))
          else ([Print (title @ placeholder)], None))"

definition render_vuln :: "nat \<Rightarrow> json \<Rightarrow> printing" where
  "render_vuln i vuln =
     then_print
       (case dict_get vuln (u ''name'') (JStr (u ''N/A'')) of
          Inl e \<Rightarrow> ([], Some e)
        | Inr name \<Rightarrow>
            ([Print ([10] @ BOLD @ GREEN @ u ''Vulnerability '' @ py_str_int (int i + 1)
                     @ u '': '' @ py_str name @ RESET)], None))
    (then_print
       (case dict_get vuln (u ''description'') (JStr (u ''N/A'')) of
          Inl e \<Rightarrow> ([], Some e)
        | Inr description \<Rightarrow>
            ([Print (CYAN @ u ''  Description:'' @ RESET @ u '' '' @ py_str description)],
             None))
    (then_print
       (render_list vuln (u ''metasploit_modules'')
          (MAGENTA @ u ''  Metasploit Modules:'' @ RESET) (u '' None suggested.''))
    (then_print
       (render_list vuln (u ''other_tools_and_formats'')
          (BLUE @ u ''  Other Suggested Tools & Formats:'' @ RESET) (u '' None suggested.''))
       (render_list vuln (u ''exploit_links'')
          (YELLOW @ u ''  Exploit Links:'' @ RESET) (u '' None provided.'')))))"

text \<open>\<open>for i, vuln in enumerate(ai_response_json)\<close>, from index \<open>i\<close> on.\<close>

fun render_vulns :: "nat \<Rightarrow> json list \<Rightarrow> printing" where
  "render_vulns i [] = ([], None)"
| "render_vulns i (vuln # vulns) = then_print (render_vuln i vuln) (render_vulns (Suc i) vulns)"

definition analysis_header :: pystr where
  "analysis_header = [10] @ GREEN @ u ''--- Gemini AI Vulnerability Analysis ---'' @ RESET"

definition no_vulnerabilities_line :: pystr where
  "no_vulnerabilities_line =
     YELLOW @ u ''No vulnerabilities identified or structured response received.'' @ RESET"

definition analysis_complete :: pystr where
  "analysis_complete = [10] @ GREEN @ u ''--- Analysis Complete ---'' @ RESET"

definition render :: "json \<Rightarrow> printing" where
  "render ai_response_json =
     (if \<not> py_truthy ai_response_json then
        ([Print analysis_header, Print no_vulnerabilities_line], None)
      else
        then_print ([Print analysis_header], None)
          (case py_iter ai_response_json of
             Inl e \<Rightarrow> ([], Some e)
           | Inr vulns \<Rightarrow>
               then_print (render_vulns 0 vulns) ([Print analysis_complete], None)))"

subsection \<open>The \<open>try\<close> block and its handlers (lines 102 to 203)\<close>

text \<open>
  What follows the answer inside the \<open>try\<close> block: the status check, the envelope, the
  embedded JSON text, the log file, the rendering. The result is the events, the file
  system, and the exception that left the block, if any.
\<close>

definition after_response ::
  "world \<Rightarrow> pystr \<Rightarrow> response \<Rightarrow> event list \<times> filesystem \<times> py_exception option" where
  "after_response w file_path r =
     (case raise_for_status r of
        Some e \<Rightarrow> ([], files w, Some e)
      | None \<Rightarrow>
          (case and_then (and_then (response_json r) result_text) loads_value of
             Inl e \<Rightarrow> ([], files w, Some e)
           | Inr ai_response_json \<Rightarrow>
               (fst (save_log w (file_path @ u ''.log'') ai_response_json)
                  @ fst (render ai_response_json),
                snd (save_log w (file_path @ u ''.log'') ai_response_json),
                snd (render ai_response_json))))"

text \<open>
  The \<open>except\<close> clauses, in the order of the source. In the \<open>KeyError\<close> clause
  \<open>response\<close> is true when its status is below 400, and \<open>response.json()\<close> is
  called again; were it to raise there, the exception would leave \<open>main\<close>.
\<close>

definition handler :: "response \<Rightarrow> py_exception \<Rightarrow> printing" where
  "handler r e =
     (case e of
        RequestException m \<Rightarrow>
          ([Print (RED @ [10] @ u ''Error communicating with Gemini API: '' @ m @ RESET),
            Print (YELLOW @ u ''Please check your internet connection or API key.'' @ RESET)],
           None)
      | JSONDecodeError m \<Rightarrow>
          ([Print (RED @ [10] @ u ''Error parsing API response JSON: '' @ m @ RESET),
            Print (YELLOW @ u ''Raw response: '' @ resp_text r @ RESET)],
           None)
      | KeyError m \<Rightarrow>
          then_print
            ([Print (RED @ [10] @ u ''Error: Missing expected key in API response - '' @ m
                     @ RESET)], None)
            (if raise_for_status r = None then
               (case response_json r of
                  Inl e' \<Rightarrow> ([], Some e')
                | Inr envelope \<Rightarrow>
                    ([Print (YELLOW @ u ''Full API response: ''
                             @ json_dumps_indent 2 envelope @ RESET)], None))
             else
               ([Print (YELLOW @ u ''Full API response: '' @ u ''No response'' @ RESET)], None))
      | _ \<Rightarrow>
          ([Print (RED @ [10] @ u ''An unexpected error occurred: '' @ exc_str e @ RESET)],
           None))"

text \<open>
  Lines 99 to 203: the request is sent; \<open>requests.post\<close> raises or answers; an
  exception of the block goes to its handler.
\<close>

definition query_gemini :: "world \<Rightarrow> pystr \<Rightarrow> pystr \<Rightarrow> pystr \<Rightarrow> run" where
  "query_gemini w file_path api_key prompt =
     (case server w (build_request api_key prompt) of
        Inl m \<Rightarrow>
          \<lparr>events = [Post (build_request api_key prompt),
                     Print (RED @ [10] @ u ''Error communicating with Gemini API: '' @ m
                            @ RESET),
                     Print (YELLOW @ u ''Please check your internet connection or API key.''
                            @ RESET)],
           files_after = files w,
           uncaught = None\<rparr>
      | Inr r \<Rightarrow>
          (case after_response w file_path r of
             (evs, fs, None) \<Rightarrow>
               \<lparr>events = Post (build_request api_key prompt) # evs,
                files_after = fs, uncaught = None\<rparr>
           | (evs, fs, Some e) \<Rightarrow>
               \<lparr>events = Post (build_request api_key prompt) # evs @ fst (handler r e),
                files_after = fs, uncaught = snd (handler r e)\<rparr>))"

subsection \<open>\<open>main\<close>\<close>

definition sending_line :: pystr where
  "sending_line = CYAN @ u ''Sending structured query to Gemini AI. Please wait...'' @ RESET"

text \<open>
  \<open>main\<close>, for the parsed arguments \<open>-r results_file\<close> and \<open>-q query\<close>. Every early
  \<open>return\<close> ends the run with what was printed so far and the file system untouched.
\<close>

definition main :: "world \<Rightarrow> pystr \<Rightarrow> pystr \<Rightarrow> run" where
  "main w results_file query =
     (case load_api_key w of
        (None, evs1) \<Rightarrow> \<lparr>events = evs1, files_after = files w, uncaught = None\<rparr>
      | (Some api_key, evs1) \<Rightarrow>
          if api_key = [] then
            \<lparr>events = evs1 @ fatal_lines, files_after = files w, uncaught = None\<rparr>
          else
            (case read_results_file w results_file of
               (None, evs2) \<Rightarrow>
                 \<lparr>events = evs1 @ evs2, files_after = files w, uncaught = None\<rparr>
             | (Some file_content, evs2) \<Rightarrow>
                 (let r = query_gemini w results_file api_key (build_prompt query file_content)
                  in r\<lparr>events := evs1 @ evs2 @ [Print sending_line] @ events r\<rparr>)))"

section \<open>The setup tool (\<open>installation.py\<close>)\<close>

subsection \<open>What the tool runs in\<close>

text \<open>
  \<open>subprocess.run(full_command, shell=True, check=..., text=True,
  capture_output=True)\<close> either completes with a return code and the captured output,
  or raises \<open>FileNotFoundError\<close>.
\<close>

datatype completed = Completed int pystr pystr | NotFound

text \<open>
  The world of one run of the setup tool: \<open>sys.platform\<close> and \<open>sys.executable\<close>, the
  modules that can be imported, the line typed at the prompt (\<open>None\<close> at end of
  input), \<open>os.path.expanduser\<close> and \<open>os.path.exists\<close>, the files that refuse to be
  appended to (with the text of the exception), and what each command line does when a
  shell runs it.
\<close>

record setup_world =
  platform :: pystr
  executable :: pystr
  importable :: "pystr \<Rightarrow> bool"
  stdin_line :: "pystr option"
  expanduser :: "pystr \<Rightarrow> pystr"
  path_exists :: "pystr \<Rightarrow> bool"
  append_fails :: "pystr \<Rightarrow> pystr option"
  subprocess_run :: "pystr \<Rightarrow> completed"

text \<open>
  A step of the script: the value it returns, or the exception it raises, and the
  events up to there.
\<close>

type_synonym 'a step = "(py_exception + 'a) \<times> event list"

definition seq :: "'a step \<Rightarrow> ('a \<Rightarrow> 'b step) \<Rightarrow> 'b step" where
  "seq m f =
     (case fst m of
        Inl e \<Rightarrow> (Inl e, snd m)
      | Inr x \<Rightarrow> (fst (f x), snd m @ snd (f x)))"

definition say :: "pystr list \<Rightarrow> unit step" where
  "say ls = (Inr (), map Print ls)"

definition returns :: "'a \<Rightarrow> 'a step" where
  "returns x = (Inr x, [])"

definition is_unix :: "setup_world \<Rightarrow> bool" where
  "is_unix w \<longleftrightarrow> startswith (platform w) (u ''linux'') \<or> platform w = u ''darwin''"

subsection \<open>\<open>run_command\<close> (lines 18 to 44)\<close>

text \<open>
  Line 28: with \<open>admin_needed\<close> on Linux or macOS the command becomes
  \<open>sudo sh -c\<close> followed by \<open>json.dumps(command)\<close>.
\<close>

definition full_command :: "setup_world \<Rightarrow> pystr \<Rightarrow> bool \<Rightarrow> pystr" where
  "full_command w command admin_needed =
     (if admin_needed \<and> is_unix w then u ''sudo sh -c '' @ json_dumps (JStr command)
      else command)"

definition run_command :: "setup_world \<Rightarrow> pystr \<Rightarrow> bool \<Rightarrow> bool \<Rightarrow> bool step" where
  "run_command w command check_error admin_needed =
     seq (say (if admin_needed \<and> is_unix w
               then [YELLOW @ u ''Administrative privileges may be required for: ''
                     @ full_command w command admin_needed @ RESET]
               else [])) (\<lambda>_.
     seq (say [BLUE @ u ''Executing: '' @ full_command w command admin_needed @ RESET]) (\<lambda>_.
     seq (Inr (), [Run (full_command w command admin_needed)]) (\<lambda>_.
       case subprocess_run w (full_command w command admin_needed) of
         Completed returncode out err \<Rightarrow>
           if check_error \<and> returncode \<noteq> 0 then
             seq (say [RED @ u ''Command failed with error code '' @ py_str_int returncode
                       @ u '':'' @ RESET,
                       RED @ err @ RESET]) (\<lambda>_. returns False)
           else
             seq (say [GREEN @ u ''Output:'' @ [10] @ out @ RESET]) (\<lambda>_.
             seq (say (if err \<noteq> [] then [YELLOW @ u ''Error Output:'' @ [10] @ err @ RESET]
                       else [])) (\<lambda>_. returns True))
       | NotFound \<Rightarrow>
           (case first_word (full_command w command admin_needed) of
              None \<Rightarrow> (Inl (IndexError (u ''list index out of range'')), [])
            | Some c \<Rightarrow>
                seq (say [RED @ u ''Error: Command '' @ [39] @ c @ [39]
                          @ u '' not found. Is it in your PATH?'' @ RESET])
                    (\<lambda>_. returns False)))))"

text \<open>
  The shell runs the command line and it completes with return code 0: the case in
  which \<open>run_command\<close>, called with \<open>check_error\<close>, returns \<open>True\<close>.
\<close>

definition exit_ok :: "setup_world \<Rightarrow> pystr \<Rightarrow> bool \<Rightarrow> bool" where
  "exit_ok w command admin_needed =
     (case subprocess_run w (full_command w command admin_needed) of
        Completed returncode out err \<Rightarrow> returncode = 0
      | NotFound \<Rightarrow> False)"

subsection \<open>\<open>install_dependencies\<close> (lines 46 to 61)\<close>

definition required_packages :: "pystr list" where
  "required_packages = [u ''requests'']"

text \<open>Line 56: \<open>f"{sys.executable} -m pip install {package}"\<close>.\<close>

definition pip_command :: "setup_world \<Rightarrow> pystr \<Rightarrow> pystr" where
  "pip_command w package = executable w @ u '' -m pip install '' @ package"

text \<open>The loop over the packages; the first failed installation returns \<open>False\<close>.\<close>

fun install_packages :: "setup_world \<Rightarrow> pystr list \<Rightarrow> bool step" where
  "install_packages w [] = returns True"
| "install_packages w (package # packages) =
     seq (Inr (), [Import package]) (\<lambda>_.
       if importable w package then
         seq (say [GREEN @ [39] @ package @ [39] @ u '' is already installed.'' @ RESET])
             (\<lambda>_. install_packages w packages)
       else
         seq (say [YELLOW @ [39] @ package @ [39] @ u '' not found. Installing now...''
                   @ RESET]) (\<lambda>_.
         seq (run_command w (pip_command w package) True False)
             (\<lambda>ok.
           if ok then
             seq (say [GREEN @ [39] @ package @ [39] @ u '' installed successfully!''
                       @ RESET])
                 (\<lambda>_. install_packages w packages)
           else
             seq (say [RED @ u ''Failed to install '' @ [39] @ package @ [39]
                       @ u ''. Please try installing it manually: '' @ [39]
                       @ u ''pip install '' @ package @ [39] @ RESET])
                 (\<lambda>_. returns False))))"

definition install_dependencies :: "setup_world \<Rightarrow> bool step" where
  "install_dependencies w =
     seq (say [[10] @ CYAN @ u ''--- Installing Python Dependencies ---'' @ RESET])
         (\<lambda>_. install_packages w required_packages)"

subsection \<open>\<open>setup_api_key\<close> (lines 63 to 141)\<close>

text \<open>
  Lines 75 to 106: the attempt to make the environment variable persistent. Whatever
  happens here is only reported.
\<close>

definition shell_profile :: "setup_world \<Rightarrow> pystr" where
  "shell_profile w =
     (if path_exists w (expanduser w (u ''~/.zshrc'')) then expanduser w (u ''~/.zshrc'')
      else expanduser w (u ''~/.bashrc''))"

definition export_line :: "pystr \<Rightarrow> pystr" where
  "export_line api_key = [10] @ u ''export GEMINI_API_KEY='' @ [34] @ api_key @ [34] @ [10]"

text \<open>Line 95: \<open>f'setx GEMINI_API_KEY "{api_key}"'\<close>.\<close>

definition setx_command :: "pystr \<Rightarrow> pystr" where
  "setx_command api_key = u ''setx GEMINI_API_KEY '' @ [34] @ api_key @ [34]"

definition persist_env :: "setup_world \<Rightarrow> pystr \<Rightarrow> unit step" where
  "persist_env w api_key =
     (if is_unix w then
        seq (Inr (), [Exists (expanduser w (u ''~/.zshrc''))]) (\<lambda>_.
        seq (say [[10] @ CYAN @ u ''Attempting to set GEMINI_API_KEY persistently in ''
                  @ shell_profile w @ u ''...'' @ RESET]) (\<lambda>_.
        seq (Inr (), [OpenAppend (shell_profile w)]) (\<lambda>_.
          case append_fails w (shell_profile w) of
            None \<Rightarrow>
              seq (Inr (), [WriteText (shell_profile w) (export_line api_key)]) (\<lambda>_.
              say [GREEN @ u ''API key added to '' @ shell_profile w @ u ''.'' @ RESET,
                   YELLOW @ u ''Please run '' @ [39] @ BOLD @ u ''source '' @ shell_profile w
                   @ RESET @ YELLOW @ [39]
                   @ u '' or restart your terminal for changes to take effect.'' @ RESET])
          | Some e \<Rightarrow>
              say [RED @ u ''Failed to write to '' @ shell_profile w @ u '': '' @ e @ RESET,
                   YELLOW @ u ''You might need to set the environment variable manually for each session:''
                   @ RESET,
                   YELLOW @ u ''export GEMINI_API_KEY='' @ [39] @ api_key @ [39] @ RESET])))
      else if platform w = u ''win32'' then
        seq (say [[10] @ CYAN
                  @ u ''Attempting to set GEMINI_API_KEY as a persistent user environment variable (Windows)...''
                  @ RESET]) (\<lambda>_.
        seq (run_command w (setx_command api_key) True False)
            (\<lambda>ok.
          if ok then
            say [GREEN @ u ''API key set persistently for your user.'' @ RESET,
                 YELLOW @ u ''You may need to restart your command prompt/PowerShell for changes to take effect.''
                 @ RESET]
          else
            say [RED @ u ''Failed to set API key persistently using setx.'' @ RESET,
                 YELLOW @ u ''You'' @ [39] @ u ''ll need to set it manually for each session (or through System Properties):''
                 @ RESET,
                 YELLOW @ u ''set GEMINI_API_KEY='' @ [39] @ api_key @ [39] @ u '' (CMD)''
                 @ RESET,
                 YELLOW @ u ''$env:GEMINI_API_KEY='' @ [39] @ api_key @ [39]
                 @ u '' (PowerShell)'' @ RESET]))
      else
        say [RED @ u ''Unsupported operating system for automated environment variable setup.''
             @ RESET,
             YELLOW @ u ''Please set the GEMINI_API_KEY environment variable manually.''
             @ RESET,
             YELLOW @ u ''Example: export GEMINI_API_KEY='' @ [39] @ api_key @ [39] @ RESET])"

text \<open>
  Lines 109 to 141: the fallback file. \<open>os.path.join\<close> puts the separator of the
  platform between the directory and the file name.
\<close>

definition api_key_dir :: pystr where
  "api_key_dir = u ''/usr/share/vortexai''"

definition fallback_file :: "setup_world \<Rightarrow> pystr" where
  "fallback_file w =
     api_key_dir @ (if platform w = u ''win32'' then [92] else [47]) @ u ''apikey.txt''"

definition mkdir_command :: pystr where
  "mkdir_command = u ''mkdir -p '' @ api_key_dir"

text \<open>Line 128: \<open>f"echo \"{api_key}\" > {api_key_file_path}"\<close>.\<close>

definition echo_command :: "setup_world \<Rightarrow> pystr \<Rightarrow> pystr" where
  "echo_command w api_key =
     u ''echo '' @ [34] @ api_key @ [34] @ u '' > '' @ fallback_file w"

definition chmod_command :: "setup_world \<Rightarrow> pystr" where
  "chmod_command w = u ''chmod 644 '' @ fallback_file w"

definition save_fallback :: "setup_world \<Rightarrow> pystr \<Rightarrow> bool step" where
  "save_fallback w api_key =
     seq (say [[10] @ CYAN @ u ''Attempting to save API key to fallback file: ''
               @ fallback_file w @ RESET]) (\<lambda>_.
     seq (Inr (), [Exists api_key_dir]) (\<lambda>_.
     seq (if \<not> path_exists w api_key_dir then
            seq (say [YELLOW @ u ''Creating directory '' @ [39] @ api_key_dir @ [39]
                      @ u ''...'' @ RESET])
                (\<lambda>_. run_command w mkdir_command True True)
          else returns True) (\<lambda>dir_ok.
       if \<not> dir_ok then
         seq (say [RED @ u ''Failed to create directory '' @ [39] @ api_key_dir @ [39]
                   @ u ''. Please create it manually with sufficient permissions.''
                   @ RESET])
             (\<lambda>_. returns False)
       else
         seq (run_command w (echo_command w api_key) True True) (\<lambda>written.
           if written then
             seq (say [GREEN @ u ''API key successfully saved to '' @ [39] @ fallback_file w
                       @ [39] @ u ''.'' @ RESET]) (\<lambda>_.
             seq (run_command w (chmod_command w) True True) (\<lambda>relaxed.
             seq (say [if relaxed then
                         GREEN @ u ''Permissions for '' @ [39] @ fallback_file w @ [39]
                         @ u '' set to 644 (owner read/write, others read).'' @ RESET
                       else
                         YELLOW @ u ''Warning: Failed to set permissions for '' @ [39]
                         @ fallback_file w @ [39]
                         @ u ''. Please set them manually to 644 for security.'' @ RESET])
                 (\<lambda>_. returns True)))
           else
             seq (say [RED @ u ''Failed to save API key to '' @ [39] @ fallback_file w
                       @ [39] @ u ''.'' @ RESET,
                       YELLOW @ u ''VortexAI will rely solely on the environment variable if this failed.''
                       @ RESET])
                 (\<lambda>_. returns False)))))"

definition key_prompt :: pystr where
  "key_prompt = BOLD @ u ''Paste your Gemini API key here: '' @ RESET"

text \<open>
  \<open>input(...)\<close> returns the line typed, or raises \<open>EOFError\<close> when there is none;
  the key is that line stripped.
\<close>

definition setup_api_key :: "setup_world \<Rightarrow> bool step" where
  "setup_api_key w =
     seq (say [[10] @ CYAN @ u ''--- Setting up Gemini API Key ---'' @ RESET,
               u ''You can get your Gemini API key from: '' @ UNDERLINE
               @ u ''https://aistudio.google.com/'' @ RESET,
               u ''Please log in with your Google account and follow the prompts to create a new API key.''])
         (\<lambda>_.
     seq (case stdin_line w of
            None \<Rightarrow> (Inl (EOFError (u ''EOF when reading a line'')), [Input key_prompt])
          | Some line \<Rightarrow> (Inr (py_strip line), [Input key_prompt])) (\<lambda>api_key.
       if api_key = [] then
         seq (say [RED @ u ''API key cannot be empty. Please restart the script and provide a key.''
                   @ RESET])
             (\<lambda>_. returns False)
       else
         seq (persist_env w api_key) (\<lambda>_. save_fallback w api_key)))"

subsection \<open>\<open>main_installation\<close> (lines 144 to 159)\<close>

text \<open>
  How the process ends: \<open>main_installation\<close> returns (exit code 0), \<open>sys.exit(n)\<close>
  is called, or an exception that nothing catches ends it with a traceback (exit code
  1).
\<close>

datatype ending = Returned | SysExit nat | Traceback py_exception

fun exit_code :: "ending \<Rightarrow> nat" where
  "exit_code Returned = 0"
| "exit_code (SysExit n) = n"
| "exit_code (Traceback e) = 1"

definition dependency_failure_line :: pystr where
  "dependency_failure_line =
     [10] @ RED
     @ u ''Installation failed due to dependency issues. Please resolve them and try again.''
     @ RESET"

definition key_setup_issues_line :: pystr where
  "key_setup_issues_line =
     [10] @ RED
     @ u ''API Key setup encountered issues. VortexAI may not function correctly without a valid API key.''
     @ RESET"

definition installation_complete_lines :: "pystr list" where
  \<open>installation_complete_lines =
     [[10] @ BOLD @ GREEN @ u ''VortexAI installation complete!'' @ RESET,
      GREEN @ u ''You can now run the main tool using: python3 vortexai.py -r <file> -q "<query>"''
      @ RESET,
      YELLOW @ u ''Remember to restart your terminal if you set the API key persistently.''
      @ RESET]\<close>

definition main_installation :: "setup_world \<Rightarrow> ending \<times> event list" where
  "main_installation w =
     (let banner = [Print (BOLD @ MAGENTA @ u ''--- VortexAI Installation Script ---''
                           @ RESET)]
      in case install_dependencies w of
           (Inl e, evs) \<Rightarrow> (Traceback e, banner @ evs)
         | (Inr False, evs) \<Rightarrow> (SysExit 1, banner @ evs @ [Print dependency_failure_line])
         | (Inr True, evs) \<Rightarrow>
             (case setup_api_key w of
                (Inl e, evs') \<Rightarrow> (Traceback e, banner @ evs @ evs')
              | (Inr False, evs') \<Rightarrow>
                  (Returned, banner @ evs @ evs' @ [Print key_setup_issues_line])
              | (Inr True, evs') \<Rightarrow>
                  (Returned, banner @ evs @ evs' @ map Print installation_complete_lines)))"

subsection \<open>How a POSIX shell reads a command line\<close>

text \<open>
  The part of the shell's quoting rules that the command lines above rely on (POSIX,
  Shell Command Language, 2.2 Quoting and 2.3 Token Recognition). Blanks separate words;
  \<open>;\<close> and the newline separate commands; \<open>>\<close> is the redirection operator. A
  backslash outside quotes keeps the next character. Between single quotes every
  character is kept. Between double quotes a backslash keeps \<open>$\<close>, the backquote, the
  double quote and the backslash, vanishes together with a newline, and stays otherwise.
  Quotes are removed from the word they delimit. Parameter and command substitution
  (\<open>$\<close> and the backquote, outside single quotes) are left out: such characters
  are kept in the word as they are written.
\<close>

datatype sh_token = Word pystr | Semi | Great

datatype sh_mode = Plain | InDouble | InSingle

definition flush :: "pystr option \<Rightarrow> sh_token list" where
  "flush cur = (case cur of None \<Rightarrow> [] | Some word \<Rightarrow> [Word word])"

definition add :: "nat \<Rightarrow> pystr option \<Rightarrow> pystr option" where
  "add c cur = (case cur of None \<Rightarrow> Some [c] | Some word \<Rightarrow> Some (word @ [c]))"

definition opened :: "pystr option \<Rightarrow> pystr option" where
  "opened cur = (case cur of None \<Rightarrow> Some [] | Some word \<Rightarrow> Some word)"

fun sh_tokens :: "sh_mode \<Rightarrow> pystr option \<Rightarrow> pystr \<Rightarrow> sh_token list" where
  "sh_tokens m cur [] = flush cur"
| "sh_tokens Plain cur (c # cs) =
     (if c = 32 \<or> c = 9 then flush cur @ sh_tokens Plain None cs
      else if c = 59 \<or> c = 10 then flush cur @ Semi # sh_tokens Plain None cs
      else if c = 62 then flush cur @ Great # sh_tokens Plain None cs
      else if c = 34 then sh_tokens InDouble (opened cur) cs
      else if c = 39 then sh_tokens InSingle (opened cur) cs
      else if c = 92 then
        (case cs of
           [] \<Rightarrow> flush (add c cur)
         | d # ds \<Rightarrow> sh_tokens Plain (add d cur) ds)
      else sh_tokens Plain (add c cur) cs)"
| "sh_tokens InDouble cur (c # cs) =
     (if c = 34 then sh_tokens Plain cur cs
      else if c = 92 then
        (case cs of
           [] \<Rightarrow> flush (add c cur)
         | d # ds \<Rightarrow>
             if d = 36 \<or> d = 96 \<or> d = 34 \<or> d = 92 then sh_tokens InDouble (add d cur) ds
             else if d = 10 then sh_tokens InDouble cur ds
             else sh_tokens InDouble (add d (add c cur)) ds)
      else sh_tokens InDouble (add c cur) cs)"
| "sh_tokens InSingle cur (c # cs) =
     (if c = 39 then sh_tokens Plain cur cs
      else sh_tokens InSingle (add c cur) cs)"

text \<open>The commands of a command line, each as its words and operators.\<close>

fun sh_split :: "sh_token list \<Rightarrow> sh_token list \<Rightarrow> sh_token list list" where
  "sh_split acc [] = (if acc = [] then [] else [acc])"
| "sh_split acc (t # ts) =
     (if t = Semi then (if acc = [] then sh_split [] ts else acc # sh_split [] ts)
      else sh_split (acc @ [t]) ts)"

definition sh_commands :: "pystr \<Rightarrow> sh_token list list" where
  "sh_commands line = sh_split [] (sh_tokens Plain None line)"

section \<open>Example worlds\<close>

text \<open>
  Concrete worlds on which the statements below are evaluated. In \<open>example_world\<close>
  the file \<open>scan.txt\<close> exists, the environment variable and the fallback file are as
  given, every path can be written, and the remote end answers every request with the
  given status and body.
\<close>

definition example_world :: "pystr option \<Rightarrow> pystr option \<Rightarrow> nat \<Rightarrow> pystr \<Rightarrow> world" where
  "example_world env_key key_file status body =
     \<lparr>environ = (\<lambda>n. if n = env_var_name then env_key else None),
      files = (\<lambda>p. if p = u ''scan.txt'' then Some (File (Inr (u ''22/tcp open ssh'')))
                    else if p = api_key_file_path then map_option (\<lambda>t. File (Inr t)) key_file
                    else None),
      write_fails = (\<lambda>p. None),
      server = (\<lambda>rq. Inr \<lparr>status_code = status, reason = u ''OK'', resp_url = url rq,
                             resp_text = body\<rparr>)\<rparr>"

text \<open>
  The envelope of an answer of the remote end, around the value found at
  \<open>["candidates"][0]["content"]["parts"][0]["text"]\<close>.
\<close>

definition envelope :: "json \<Rightarrow> json" where
  "envelope part_text =
     JObj [(u ''candidates'',
            JArr [JObj [(u ''content'',
                         JObj [(u ''parts'', JArr [JObj [(u ''text'', part_text)]])])]])]"


definition empty_answer :: pystr where
  "empty_answer = json_dumps (envelope (JStr (u ''[]'')))"



text \<open>
  A world in which \<open>scan.txt\<close> has three lines, the first ended by a carriage
  return and a newline, the second by a carriage return.
\<close>

definition crlf_scan :: pystr where
  "crlf_scan = u ''22/tcp'' @ [13, 10] @ u ''80/tcp'' @ [13] @ u ''443/tcp''"

definition crlf_world :: world where
  "crlf_world =
     (example_world (Some (u ''KEY'')) None 200 [])
       \<lparr>files := \<lambda>p. if p = u ''scan.txt'' then Some (File (Inr crlf_scan)) else None\<rparr>"

text \<open>
  A world in which the remote end answers with status 300 and a well-formed envelope
  around the text \<open>[]\<close>.
\<close>

definition redirect_world :: world where
  "redirect_world =
     (example_world (Some (u ''KEY'')) None 300 empty_answer)
       \<lparr>server := \<lambda>rq. Inr \<lparr>status_code = 300, reason = u ''Multiple Choices'',
                               resp_url = url rq, resp_text = empty_answer\<rparr>\<rparr>"

text \<open>
  The answer of the specification's example, the value it decodes to, and that value
  serialised with an indentation of two spaces.
\<close>

definition nmap_answer :: pystr where
  \<open>nmap_answer = u ''[{"name":"X","description":"Y","metasploit_modules":[],"exploit_links":[],"other_tools_and_formats":["Nmap"]}]''\<close>

definition nmap_records :: json where
  "nmap_records =
     JArr [JObj [(u ''name'', JStr (u ''X'')),
                 (u ''description'', JStr (u ''Y'')),
                 (u ''metasploit_modules'', JArr []),
                 (u ''exploit_links'', JArr []),
                 (u ''other_tools_and_formats'', JArr [JStr (u ''Nmap'')])]]"

definition nmap_log :: pystr where
  \<open>nmap_log =
     u ''['' @ [10]
     @ u ''  {'' @ [10]
     @ u ''    "name": "X",'' @ [10]
     @ u ''    "description": "Y",'' @ [10]
     @ u ''    "metasploit_modules": [],'' @ [10]
     @ u ''    "exploit_links": [],'' @ [10]
     @ u ''    "other_tools_and_formats": ['' @ [10]
     @ u ''      "Nmap"'' @ [10]
     @ u ''    ]'' @ [10]
     @ u ''  }'' @ [10]
     @ u '']''\<close>

definition nmap_response :: pystr where
  "nmap_response = json_dumps (envelope (JStr nmap_answer))"

text \<open>
  Worlds for the setup tool: the platform, whether \<open>requests\<close> can be imported, the
  line typed at the prompt and what the shell does are as given; the home directory is
  \<open>/home/user\<close>, no path exists yet, and the shell profile can be appended to.
\<close>

definition example_setup_world ::
  "pystr \<Rightarrow> bool \<Rightarrow> pystr option \<Rightarrow> (pystr \<Rightarrow> completed) \<Rightarrow> setup_world" where
  "example_setup_world plat has_requests typed shell =
     \<lparr>platform = plat,
      executable = u ''/usr/bin/python3'',
      importable = (\<lambda>package. has_requests),
      stdin_line = typed,
      expanduser = (\<lambda>p. u ''/home/user'' @ tl p),
      path_exists = (\<lambda>p. False),
      append_fails = (\<lambda>p. None),
      subprocess_run = shell\<rparr>"

definition every_command_succeeds :: "pystr \<Rightarrow> completed" where
  "every_command_succeeds c = Completed 0 [] []"

definition every_command_fails :: "pystr \<Rightarrow> completed" where
  "every_command_fails c = Completed 1 [] (u ''Permission denied'')"

definition only_chmod_fails :: "pystr \<Rightarrow> completed" where
  \<open>only_chmod_fails c =
     (if c = u ''sudo sh -c "chmod 644 /usr/share/vortexai/apikey.txt"''
      then Completed 1 [] (u ''chmod: Operation not permitted'')
      else Completed 0 [] [])\<close>

text \<open>A line typed at the prompt: \<open>x";id;echo "y\<close>.\<close>

definition injecting_key :: pystr where
  \<open>injecting_key = u ''x";id;echo "y''\<close>

definition injecting_world :: setup_world where
  "injecting_world =
     example_setup_world (u ''linux'') True (Some injecting_key) every_command_succeeds"

section \<open>Events of a run\<close>

lemma printed_simps [simp]:
  "printed [] = []"
  "printed (a @ b) = printed a @ printed b"
  "printed (Print s # evs) = s # printed evs"
  "printed (Exists p # evs) = printed evs"
  "printed (IsFile p # evs) = printed evs"
  "printed (OpenRead p # evs) = printed evs"
  "printed (OpenWrite p # evs) = printed evs"
  "printed (Post rq # evs) = printed evs"
  "printed (map Print ls) = ls"
  by (simp_all add: printed_def comp_def)

lemma file_accesses_simps [simp]:
  "file_accesses [] = []"
  "file_accesses (a @ b) = file_accesses a @ file_accesses b"
  "file_accesses (Print s # evs) = file_accesses evs"
  "file_accesses (Exists p # evs) = p # file_accesses evs"
  "file_accesses (IsFile p # evs) = p # file_accesses evs"
  "file_accesses (OpenRead p # evs) = p # file_accesses evs"
  "file_accesses (OpenWrite p # evs) = p # file_accesses evs"
  "file_accesses (Post rq # evs) = file_accesses evs"
  "file_accesses (map Print ls) = []"
  by (simp_all add: file_accesses_def comp_def)

lemma http_requests_simps [simp]:
  "http_requests [] = []"
  "http_requests (a @ b) = http_requests a @ http_requests b"
  "http_requests (Print s # evs) = http_requests evs"
  "http_requests (Exists p # evs) = http_requests evs"
  "http_requests (IsFile p # evs) = http_requests evs"
  "http_requests (OpenRead p # evs) = http_requests evs"
  "http_requests (OpenWrite p # evs) = http_requests evs"
  "http_requests (Post rq # evs) = rq # http_requests evs"
  "http_requests (map Print ls) = []"
  by (simp_all add: http_requests_def comp_def)

lemma opened_for_writing_simps [simp]:
  "opened_for_writing [] = []"
  "opened_for_writing (a @ b) = opened_for_writing a @ opened_for_writing b"
  "opened_for_writing (Print s # evs) = opened_for_writing evs"
  "opened_for_writing (Exists p # evs) = opened_for_writing evs"
  "opened_for_writing (IsFile p # evs) = opened_for_writing evs"
  "opened_for_writing (OpenRead p # evs) = opened_for_writing evs"
  "opened_for_writing (OpenWrite p # evs) = p # opened_for_writing evs"
  "opened_for_writing (Post rq # evs) = opened_for_writing evs"
  "opened_for_writing (map Print ls) = []"
  by (simp_all add: opened_for_writing_def comp_def)

lemma then_print_simps [simp]:
  "then_print (evs, None) b = (evs @ fst b, snd b)"
  "then_print (evs, Some e) b = (evs, Some e)"
  by (simp_all add: then_print_def)

lemma printed_map_Print [simp]: "printed (map (\<lambda>x. Print (g x)) xs) = map g xs"
  by (induction xs) simp_all

text \<open>Rendering only prints.\<close>

lemma prints_append:
  "map Print (printed a) = a \<Longrightarrow> map Print (printed b) = b \<Longrightarrow>
   map Print (printed (a @ b)) = a @ b"
  by simp

lemma then_print_prints:
  assumes "map Print (printed (fst a)) = fst a" and "map Print (printed (fst b)) = fst b"
  shows "map Print (printed (fst (then_print a b))) = fst (then_print a b)"
proof (cases a)
  case (Pair evs x)
  with assms show ?thesis by (cases x) simp_all
qed

lemma render_list_prints:
  "map Print (printed (fst (render_list v k t p))) = fst (render_list v k t p)"
  by (simp add: render_list_def comp_def split: sum.splits)

lemma render_vuln_prints:
  "map Print (printed (fst (render_vuln i v))) = fst (render_vuln i v)"
  unfolding render_vuln_def
  by (intro then_print_prints render_list_prints) (simp_all split: sum.splits)

lemma render_vulns_prints:
  "map Print (printed (fst (render_vulns i vs))) = fst (render_vulns i vs)"
  by (induction vs arbitrary: i) (simp_all add: then_print_prints render_vuln_prints del: then_print_simps)

lemma render_prints: "map Print (printed (fst (render v))) = fst (render v)"
proof (cases "py_truthy v")
  case False
  then show ?thesis by (simp add: render_def)
next
  case True
  show ?thesis
  proof (cases "py_iter v")
    case (Inl e)
    with True show ?thesis by (simp add: render_def)
  next
    case (Inr vs)
    have "map Print (printed (fst (then_print (render_vulns 0 vs) ([Print analysis_complete], None))))
          = fst (then_print (render_vulns 0 vs) ([Print analysis_complete], None))"
      by (rule then_print_prints) (simp_all add: render_vulns_prints)
    with True Inr show ?thesis by (simp add: render_def)
  qed
qed

lemma handler_prints: "map Print (printed (fst (handler r e))) = fst (handler r e)"
  by (cases e) (simp_all add: handler_def split: sum.splits)

lemma prints_quiet:
  assumes "map Print (printed evs) = evs"
  shows "file_accesses evs = []" and "http_requests evs = []"
    and "opened_for_writing evs = []"
proof -
  have "opened_for_writing (map Print (printed evs)) = []" by simp
  with assms show "opened_for_writing evs = []" by simp
  have "file_accesses (map Print (printed evs)) = []" by simp
  with assms show "file_accesses evs = []" by simp
  have "http_requests (map Print (printed evs)) = []" by simp
  with assms show "http_requests evs = []" by simp
qed

lemmas render_quiet = prints_quiet [OF render_prints]
lemmas handler_quiet = prints_quiet [OF handler_prints]

lemma save_log_accesses: "file_accesses (fst (save_log w p v)) = [p]"
  by (simp add: save_log_def split: option.splits)

lemma after_response_accesses:
  "set (file_accesses (fst (after_response w f r))) \<subseteq> {f @ u ''.log''}"
  by (simp add: after_response_def save_log_accesses render_quiet split: option.splits sum.splits)

lemma query_gemini_accesses:
  "set (file_accesses (events (query_gemini w f k p))) \<subseteq> {f @ u ''.log''}"
proof (cases "server w (build_request k p)")
  case (Inl m)
  then show ?thesis by (simp add: query_gemini_def)
next
  case (Inr r)
  obtain evs fs x where ar: "after_response w f r = (evs, fs, x)"
    by (cases "after_response w f r") auto
  with after_response_accesses [of w f r]
  have "set (file_accesses evs) \<subseteq> {f @ u ''.log''}" by simp
  with Inr ar show ?thesis
    by (cases x) (simp_all add: query_gemini_def handler_quiet)
qed

lemma read_results_file_accesses:
  "set (file_accesses (snd (read_results_file w f))) \<subseteq> {f}"
  by (simp add: read_results_file_def split: option.splits node.splits sum.splits)

text \<open>Stripping a text that is padded with white space.\<close>

lemma py_strip_padded:
  assumes l: "\<forall>c\<in>set l. py_isspace c" and r: "\<forall>c\<in>set r. py_isspace c"
    and s: "s \<noteq> []" "\<not> py_isspace (hd s)" "\<not> py_isspace (last s)"
  shows "py_strip (l @ s @ r) = s"
proof -
  have "dropWhile py_isspace (l @ s @ r) = dropWhile py_isspace (s @ r)"
    using l by (simp add: dropWhile_append2)
  also have "\<dots> = s @ r"
    using s by (cases s) simp_all
  finally have front: "dropWhile py_isspace (l @ s @ r) = s @ r" .
  have "dropWhile py_isspace (rev (s @ r)) = dropWhile py_isspace (rev s)"
    using r dropWhile_append2 [of "rev r" py_isspace "rev s"] by simp
  also have "\<dots> = rev s"
    using s by (cases s rule: rev_cases) simp_all
  finally show ?thesis
    using front by (simp add: py_strip_def)
qed

text \<open>Universal newlines.\<close>

lemma universal_newlines_Cons:
  "c \<noteq> 13 \<Longrightarrow> universal_newlines (c # s) = c # universal_newlines s"
  by (cases s) simp_all

lemma universal_newlines_id: "13 \<notin> set s \<Longrightarrow> universal_newlines s = s"
  by (induction s) (simp_all add: universal_newlines_Cons)

lemma universal_newlines_append:
  "s \<noteq> [] \<Longrightarrow> hd s \<noteq> 10 \<Longrightarrow>
   universal_newlines (l @ s) = universal_newlines l @ universal_newlines s"
  by (induction l rule: universal_newlines.induct) (cases s; simp)+

lemma universal_newlines_isspace:
  "\<forall>c\<in>set l. py_isspace c \<Longrightarrow> \<forall>c\<in>set (universal_newlines l). py_isspace c"
  by (induction l rule: universal_newlines.induct) (simp_all add: py_isspace_def)

text \<open>\<open>main\<close>, once the key and the file are there.\<close>

lemma load_api_key_nonempty: "fst (load_api_key w) = Some k \<Longrightarrow> k \<noteq> []"
  by (auto simp: load_api_key_def api_key_from_file_def
           split: option.splits node.splits sum.splits if_splits)

lemma load_api_key_prints_before:
  "fst (load_api_key w) = Some k \<Longrightarrow> load_api_key w = (Some k, snd (load_api_key w))"
  by (cases "load_api_key w") simp

lemma read_results_file_silent:
  "fst (read_results_file w f) = Some content \<Longrightarrow>
   read_results_file w f = (Some content, [Exists f, IsFile f, OpenRead f])"
  by (auto simp: read_results_file_def split: option.splits node.splits sum.splits)

lemma main_query:
  assumes "fst (load_api_key w) = Some k" and "fst (read_results_file w f) = Some content"
  shows "main w f q =
           (query_gemini w f k (build_prompt q content))
             \<lparr>events := snd (load_api_key w) @ [Exists f, IsFile f, OpenRead f]
                        @ [Print sending_line]
                        @ events (query_gemini w f k (build_prompt q content))\<rparr>"
proof -
  obtain evs1 where l: "load_api_key w = (Some k, evs1)"
    using assms(1) by (cases "load_api_key w") simp
  have "k \<noteq> []" by (rule load_api_key_nonempty [OF assms(1)])
  with l read_results_file_silent [OF assms(2)] show ?thesis
    by (simp add: main_def Let_def)
qed

lemma load_api_key_no_write: "opened_for_writing (snd (load_api_key w)) = []"
  by (auto simp: load_api_key_def api_key_from_file_def
           split: option.splits node.splits sum.splits)

lemma read_results_file_text:
  "files w f = Some (File (Inr t)) \<Longrightarrow> fst (read_results_file w f) = Some (universal_newlines t)"
  by (simp add: read_results_file_def)

text \<open>The one request of a run.\<close>

lemma load_api_key_requests: "http_requests (snd (load_api_key w)) = []"
  by (auto simp: load_api_key_def api_key_from_file_def
           split: option.splits node.splits sum.splits)

lemma after_response_requests: "http_requests (fst (after_response w f r)) = []"
  by (simp add: after_response_def save_log_def render_quiet split: option.splits sum.splits)

lemma query_gemini_requests:
  "http_requests (events (query_gemini w f k p)) = [build_request k p]"
proof (cases "server w (build_request k p)")
  case (Inl m)
  then show ?thesis by (simp add: query_gemini_def)
next
  case (Inr r)
  obtain evs fs x where ar: "after_response w f r = (evs, fs, x)"
    by (cases "after_response w f r") auto
  with after_response_requests [of w f r] have "http_requests evs = []" by simp
  with Inr ar show ?thesis
    by (cases x) (simp_all add: query_gemini_def handler_quiet)
qed

text \<open>The example worlds, evaluated.\<close>

lemma key_world: "fst (load_api_key (example_world (Some (u ''KEY'')) None s b)) = Some (u ''KEY'')"
  by (simp add: load_api_key_def example_world_def u_def)

lemma scan_world: "fst (read_results_file (example_world e kf s b) (u ''scan.txt'')) = Some (u ''22/tcp open ssh'')"
  by (simp add: read_results_file_def example_world_def u_def)


lemma key_world_events: "snd (load_api_key (example_world (Some (u ''KEY'')) None s b)) = []"
  by (simp add: load_api_key_def example_world_def u_def)


lemma envelope_answer_text:
  "and_then (response_json \<lparr>status_code = s, reason = rs, resp_url = x,
                              resp_text = json_dumps (envelope (JStr (u ''[]'')))\<rparr>) result_text
    = Inr (JStr (u ''[]''))"
  by (simp add: json_dumps_def envelope_def response_json_def
      json_loads_at_def recursion_limit_def value_step_def key_step_def
      u_def startswith_def encode_basestring_ascii_def escape_str_def escape_char_def
      is_json_ws_def scan_atom_def and_then_def result_text_def)

lemma empty_object: "json_loads_at 3 (u ''{}'') = Inr (JObj [])"
  by (simp add: json_loads_at_def u_def startswith_def is_json_ws_def recursion_limit_def
      value_step_def)

lemma empty_array: "json_loads (u ''[]'') = Inr (JArr [])"
  by (simp add: json_loads_def json_loads_at_def u_def startswith_def is_json_ws_def
      recursion_limit_def value_step_def)

lemma nmap_answer_decodes: "json_loads nmap_answer = Inr nmap_records"
  by (simp add: nmap_answer_def nmap_records_def json_loads_def json_loads_at_def u_def
      startswith_def is_json_ws_def scan_atom_def recursion_limit_def value_step_def
      key_step_def)








lemma nmap_records_indented: "json_dumps_indent 2 nmap_records = nmap_log"
  by (simp add: nmap_records_def nmap_log_def json_dumps_indent_def u_def
      encode_basestring_ascii_def escape_str_def escape_char_def newline_indent_def
      numeral_eq_Suc)

lemma nmap_records_rendered:
  "render nmap_records =
     ([Print analysis_header,
       Print ([10] @ BOLD @ GREEN @ u ''Vulnerability 1: X'' @ RESET),
       Print (CYAN @ u ''  Description:'' @ RESET @ u '' Y''),
       Print (MAGENTA @ u ''  Metasploit Modules:'' @ RESET @ u '' None suggested.''),
       Print (BLUE @ u ''  Other Suggested Tools & Formats:'' @ RESET),
       Print (u ''    - Nmap''),
       Print (YELLOW @ u ''  Exploit Links:'' @ RESET @ u '' None provided.''),
       Print analysis_complete], None)"
  by (simp add: nmap_records_def render_def render_vuln_def render_list_def u_def
      py_str_int_def)

lemma nmap_response_text:
  "and_then (response_json \<lparr>status_code = 200, reason = u ''OK'', resp_url = x,
                              resp_text = nmap_response\<rparr>) result_text
    = Inr (JStr nmap_answer)"
  by (simp add: nmap_response_def nmap_answer_def json_dumps_def envelope_def
      response_json_def json_loads_at_def recursion_limit_def value_step_def key_step_def
      u_def startswith_def encode_basestring_ascii_def escape_str_def escape_char_def
      is_json_ws_def scan_atom_def and_then_def result_text_def backslash_def)

text \<open>The serialised request body.\<close>

lemma escape_str_append: "escape_str (a @ b) = escape_str a @ escape_str b"
  by (simp add: escape_str_def)

lemma data_build_request:
  "data (build_request k p) = body_before_prompt @ escape_str p @ body_after_prompt"
  by (simp add: build_request_def json_dumps_def payload_def chat_history_def
      body_before_prompt_def body_after_prompt_def encode_basestring_ascii_def
      escape_str_def escape_char_def u_def)

lemma hexdigit_not_newline: "hexdigit d \<noteq> 10"
  by (simp add: hexdigit_def)

lemma newline_not_in_escape_char: "10 \<notin> set (escape_char c)"
  by (simp add: escape_char_def hex4_def hex2_def hexdigit_not_newline)

lemma newline_not_in_escape_str: "10 \<notin> set (escape_str s)"
  by (induction s) (simp_all add: escape_str_def newline_not_in_escape_char)

lemma newline_not_around_prompt:
  "10 \<notin> set body_before_prompt" "10 \<notin> set body_after_prompt"
  by (simp_all add: body_before_prompt_def body_after_prompt_def json_dumps_def
      generation_config_def string_array_schema_def encode_basestring_ascii_def
      escape_str_def escape_char_def u_def)

lemma plain_escape_str:
  "\<forall>c\<in>set s. 32 \<le> c \<and> c \<le> 126 \<and> c \<noteq> 34 \<and> c \<noteq> 92 \<Longrightarrow> escape_str s = s"
  by (induction s) (auto simp: escape_str_def escape_char_def)





lemma crlf_scan_text:
  "universal_newlines crlf_scan = u ''22/tcp'' @ [10] @ u ''80/tcp'' @ [10] @ u ''443/tcp''"
  by (simp add: crlf_scan_def u_def)

lemma crlf_scan_escaped:
  "escape_str (u ''22/tcp'' @ [10] @ u ''80/tcp'' @ [10] @ u ''443/tcp'')
     = u ''22/tcp'' @ [92, 110] @ u ''80/tcp'' @ [92, 110] @ u ''443/tcp''"
  by (simp add: escape_str_def escape_char_def u_def)

lemma crlf_world_key: "fst (load_api_key crlf_world) = Some (u ''KEY'')"
  by (simp add: load_api_key_def crlf_world_def example_world_def u_def)

lemma crlf_world_file: "files crlf_world (u ''scan.txt'') = Some (File (Inr crlf_scan))"
  by (simp add: crlf_world_def)

lemma scan_world_file:
  "files (example_world e kf s b) (u ''scan.txt'') = Some (File (Inr (u ''22/tcp open ssh'')))"
  by (simp add: example_world_def)

section \<open>What the steps of the setup tool return\<close>

lemma fst_seq: "fst (seq m f) = (case fst m of Inl e \<Rightarrow> Inl e | Inr x \<Rightarrow> fst (f x))"
  by (simp add: seq_def split: sum.splits)

lemma fst_say [simp]: "fst (say ls) = Inr ()"
  by (simp add: say_def)

lemma fst_returns [simp]: "fst (returns x) = Inr x"
  by (simp add: returns_def)

lemma first_word_None_iff: "first_word s = None \<longleftrightarrow> (\<forall>c\<in>set s. py_isspace c)"
  by (simp add: first_word_def Let_def dropWhile_eq_Nil_conv)

lemma run_command_returns:
  assumes "\<exists>c\<in>set (full_command w command admin). \<not> py_isspace c"
  shows "fst (run_command w command True admin) = Inr (exit_ok w command admin)"
proof -
  from assms obtain c where "first_word (full_command w command admin) = Some c"
    using first_word_None_iff [of "full_command w command admin"] by (cases "first_word (full_command w command admin)") auto
  then show ?thesis
    by (simp add: run_command_def fst_seq exit_ok_def split: completed.splits)
qed

lemma full_command_has_word:
  assumes "command \<noteq> []" and "\<not> py_isspace (hd command)"
  shows "\<exists>c\<in>set (full_command w command admin). \<not> py_isspace c"
proof (cases "admin \<and> is_unix w")
  case True
  then have "115 \<in> set (full_command w command admin)"
    by (simp add: full_command_def u_def)
  moreover have "\<not> py_isspace 115" by (simp add: py_isspace_def)
  ultimately show ?thesis by blast
next
  case False
  with assms show ?thesis by (cases command) (auto simp: full_command_def)
qed

lemma commands_have_words:
  "\<exists>c\<in>set (full_command w mkdir_command admin). \<not> py_isspace c"
  "\<exists>c\<in>set (full_command w (echo_command w k) admin). \<not> py_isspace c"
  "\<exists>c\<in>set (full_command w (chmod_command w) admin). \<not> py_isspace c"
  "\<exists>c\<in>set (full_command w (setx_command k) admin). \<not> py_isspace c"
  by (rule full_command_has_word;
      simp add: mkdir_command_def echo_command_def chmod_command_def setx_command_def
        u_def py_isspace_def)+

lemma pip_command_has_word:
  "\<exists>c\<in>set (full_command w (pip_command w package) False). \<not> py_isspace c"
proof -
  have "45 \<in> set (full_command w (pip_command w package) False)"
    by (simp add: full_command_def pip_command_def u_def)
  moreover have "\<not> py_isspace 45" by (simp add: py_isspace_def)
  ultimately show ?thesis by blast
qed

lemma install_dependencies_returns:
  "fst (install_dependencies w)
     = Inr (importable w (u ''requests'') \<or> exit_ok w (pip_command w (u ''requests'')) False)"
  by (simp add: install_dependencies_def required_packages_def fst_seq
      run_command_returns [OF pip_command_has_word])

lemma persist_env_returns: "fst (persist_env w k) = Inr ()"
  by (simp add: persist_env_def fst_seq run_command_returns [OF commands_have_words(4)]
      split: option.splits)

lemma save_fallback_returns:
  "fst (save_fallback w k)
     = Inr ((path_exists w api_key_dir \<or> exit_ok w mkdir_command True)
            \<and> exit_ok w (echo_command w k) True)"
  by (simp add: save_fallback_def fst_seq run_command_returns [OF commands_have_words(1)]
      run_command_returns [OF commands_have_words(2)]
      run_command_returns [OF commands_have_words(3)])

lemma setup_api_key_returns:
  assumes "stdin_line w = Some line"
  shows "fst (setup_api_key w)
           = Inr (py_strip line \<noteq> []
                  \<and> (path_exists w api_key_dir \<or> exit_ok w mkdir_command True)
                  \<and> exit_ok w (echo_command w (py_strip line)) True)"
  using assms
  by (simp add: setup_api_key_def fst_seq persist_env_returns save_fallback_returns)

lemma main_installation_cases:
  "fst (install_dependencies w) = Inr False \<Longrightarrow>
     main_installation w
       = (SysExit 1,
          Print (BOLD @ MAGENTA @ u ''--- VortexAI Installation Script ---'' @ RESET)
          # snd (install_dependencies w) @ [Print dependency_failure_line])"
  "fst (install_dependencies w) = Inr True \<Longrightarrow> fst (setup_api_key w) = Inr False \<Longrightarrow>
     main_installation w
       = (Returned,
          Print (BOLD @ MAGENTA @ u ''--- VortexAI Installation Script ---'' @ RESET)
          # snd (install_dependencies w) @ snd (setup_api_key w)
          @ [Print key_setup_issues_line])"
  by (cases "install_dependencies w"; cases "setup_api_key w"; simp add: main_installation_def)+

lemma is_unix_update [simp]:
  "is_unix (w\<lparr>append_fails := a\<rparr>) = is_unix w"
  "is_unix (w\<lparr>subprocess_run := s\<rparr>) = is_unix w"
  by (simp_all add: is_unix_def)

lemma chmod_command_differs:
  "full_command w mkdir_command True \<noteq> full_command w (chmod_command w) True"
  "full_command w (echo_command w k) True \<noteq> full_command w (chmod_command w) True"
  by (simp_all add: full_command_def mkdir_command_def chmod_command_def echo_command_def
      json_dumps_def encode_basestring_ascii_def escape_str_def escape_char_def u_def)

text \<open>The command lines the setup tool hands to the shell.\<close>

lemma snd_seq:
  "snd (seq m f) = (case fst m of Inl e \<Rightarrow> snd m | Inr x \<Rightarrow> snd m @ snd (f x))"
  by (simp add: seq_def split: sum.splits)

lemma run_command_runs: "Run (full_command w c a) \<in> set (snd (run_command w c chk a))"
  by (simp add: run_command_def snd_seq fst_seq)

lemma in_seq_later:
  "fst m = Inr x \<Longrightarrow> e \<in> set (snd (f x)) \<Longrightarrow> e \<in> set (snd (seq m f))"
  by (simp add: snd_seq)

lemma in_seq_run:
  "Run (full_command w c a) \<in> set (snd (seq (run_command w c chk a) f))"
  by (simp add: snd_seq run_command_runs split: sum.splits)

lemma echo_command_is_run:
  assumes "stdin_line w = Some line" and "py_strip line \<noteq> []"
    and "path_exists w api_key_dir \<or> exit_ok w mkdir_command True"
  shows "Run (full_command w (echo_command w (py_strip line)) True)
           \<in> set (snd (setup_api_key w))"
proof -
  have dir: "fst (if \<not> path_exists w api_key_dir then
                   seq (say [YELLOW @ u ''Creating directory '' @ [39] @ api_key_dir @ [39]
                             @ u ''...'' @ RESET])
                       (\<lambda>_. run_command w mkdir_command True True)
                 else returns True) = Inr True"
    using assms(3) by (auto simp: fst_seq run_command_returns [OF commands_have_words(1)])
  have "Run (full_command w (echo_command w (py_strip line)) True)
          \<in> set (snd (save_fallback w (py_strip line)))"
    unfolding save_fallback_def
    apply (rule in_seq_later [where x = "()"], simp)
    apply (rule in_seq_later [where x = "()"], simp)
    apply (rule in_seq_later [OF dir])
    apply (simp only: not_True_eq_False if_False)
    apply (rule in_seq_run)
    done
  then have both: "Run (full_command w (echo_command w (py_strip line)) True)
               \<in> set (snd (seq (persist_env w (py_strip line))
                                 (\<lambda>_. save_fallback w (py_strip line))))"
    by (intro in_seq_later [where x = "()"]) (simp_all add: persist_env_returns)
  show ?thesis
    unfolding setup_api_key_def
    apply (rule in_seq_later [where x = "()"], simp)
    apply (rule in_seq_later [where x = "py_strip line"])
    using assms(1,2) both by simp_all
qed

section \<open>The query tool: the credential\<close>

text \<open>
  C4. When the environment variable \<open>GEMINI_API_KEY\<close> is set to a non-empty string,
  the credential that is loaded is the value of the variable and loading it touches no
  file at all: the step produces no event, so the fallback file is neither looked for
  nor opened. In the whole run the only paths the file system is asked about are the
  file to analyse and its log file.
\<close>

theorem env_key_wins:
  assumes "environ w env_var_name = Some k" and "k \<noteq> []"
  shows "load_api_key w = (Some k, [])
         \<and> set (file_accesses (events (main w f q))) \<subseteq> {f, f @ u ''.log''}"
proof
  show l: "load_api_key w = (Some k, [])"
    using assms by (simp add: load_api_key_def)
  show "set (file_accesses (events (main w f q))) \<subseteq> {f, f @ u ''.log''}"
  proof (cases "read_results_file w f")
    case (Pair c evs2)
    with read_results_file_accesses [of w f]
    have a2: "set (file_accesses evs2) \<subseteq> {f}" by simp
    show ?thesis
    proof (cases c)
      case None
      with Pair l assms a2 show ?thesis by (auto simp: main_def)
    next
      case (Some content)
      with Pair l assms a2 query_gemini_accesses [of w f k "build_prompt q content"]
      show ?thesis
        by (auto simp: main_def Let_def)
    qed
  qed
qed

theorem env_key_wins_witness:
  "load_api_key (example_world (Some (u ''KEY'')) None 200 []) = (Some (u ''KEY''), [])
   \<and> set (file_accesses (events (main (example_world (Some (u ''KEY'')) None 200 [])
                                       (u ''scan.txt'') (u ''find'')))) 
       \<subseteq> {u ''scan.txt'', u ''scan.txt'' @ u ''.log''}"
  using env_key_wins [of "example_world (Some (u ''KEY'')) None 200 []" "u ''KEY''"
                         "u ''scan.txt''" "u ''find''"]
  by (simp add: example_world_def u_def)

text \<open>
  C5. When the environment variable is unset or empty and the fallback file holds
  \<open>ABC123\<close> with any white space before and after it, the credential that is loaded
  is exactly \<open>ABC123\<close>.
\<close>

theorem fallback_key_is_stripped:
  assumes "environ w env_var_name = None \<or> environ w env_var_name = Some []"
    and "files w api_key_file_path = Some (File (Inr (l @ u ''ABC123'' @ r)))"
    and "\<forall>c\<in>set l. py_isspace c" and "\<forall>c\<in>set r. py_isspace c"
  shows "fst (load_api_key w) = Some (u ''ABC123'')"
proof -
  have "universal_newlines (l @ u ''ABC123'' @ r)
          = universal_newlines l @ universal_newlines (u ''ABC123'' @ r)"
    by (rule universal_newlines_append) (simp_all add: u_def)
  moreover have "universal_newlines (u ''ABC123'' @ r) = u ''ABC123'' @ universal_newlines r"
    by (simp add: u_def universal_newlines_Cons)
  ultimately have read: "universal_newlines (l @ u ''ABC123'' @ r)
                           = universal_newlines l @ u ''ABC123'' @ universal_newlines r"
    by simp
  have "py_strip (universal_newlines l @ u ''ABC123'' @ universal_newlines r) = u ''ABC123''"
    using universal_newlines_isspace [OF assms(3)] universal_newlines_isspace [OF assms(4)]
    by (intro py_strip_padded) (simp_all add: u_def py_isspace_def)
  with read have "py_strip (universal_newlines (l @ u ''ABC123'' @ r)) = u ''ABC123''"
    by simp
  moreover have "u ''ABC123'' \<noteq> []" by (simp add: u_def)
  ultimately show ?thesis
    using assms(1,2) by (auto simp: load_api_key_def api_key_from_file_def)
qed

theorem fallback_key_is_stripped_witness:
  "fst (load_api_key (example_world None (Some ([32, 9] @ u ''ABC123'' @ [13, 10])) 200 []))
   = Some (u ''ABC123'')"
  using fallback_key_is_stripped
          [of "example_world None (Some ([32, 9] @ u ''ABC123'' @ [13, 10])) 200 []"
              "[32, 9]" "[13, 10]"]
  by (simp add: example_world_def py_isspace_def api_key_file_path_def u_def)

text \<open>
  C6. When the environment variable is unset or empty and the fallback file does not
  exist, the run sends no HTTP request and returns after printing an error: the line
  that says the key file was not found and a line that names both ways to provide the
  key, the environment variable and the path of the fallback file. The file system is
  left as it was.
\<close>

theorem no_credential_no_request:
  assumes "environ w env_var_name = None \<or> environ w env_var_name = Some []"
    and "files w api_key_file_path = None"
  shows "http_requests (events (main w f q)) = []
         \<and> printed (events (main w f q))
             = [checking_line, key_file_not_found_line, please_set_line]
         \<and> (\<exists>a b. please_set_line = a @ env_var_name @ b)
         \<and> (\<exists>a b. please_set_line = a @ api_key_file_path @ b)
         \<and> files_after (main w f q) = files w
         \<and> uncaught (main w f q) = None"
proof -
  have l: "load_api_key w =
             (None, [Print checking_line, Exists api_key_file_path,
                     Print key_file_not_found_line, Print please_set_line])"
    using assms by (auto simp: load_api_key_def api_key_from_file_def)
  have "please_set_line = (YELLOW @ u ''Please set '') @ env_var_name
          @ (u '' environment variable OR create '' @ [39] @ api_key_file_path @ [39]
             @ u '' with your API key.'' @ RESET)"
    by (simp add: please_set_line_def)
  then have e1: "\<exists>a b. please_set_line = a @ env_var_name @ b" by blast
  have "please_set_line
          = (YELLOW @ u ''Please set '' @ env_var_name @ u '' environment variable OR create ''
             @ [39]) @ api_key_file_path @ ([39] @ u '' with your API key.'' @ RESET)"
    by (simp add: please_set_line_def)
  then have e2: "\<exists>a b. please_set_line = a @ api_key_file_path @ b" by blast
  from l e1 e2 show ?thesis by (simp add: main_def)
qed

theorem no_credential_no_request_witness:
  "http_requests (events (main (example_world (Some []) None 200 []) (u ''scan.txt'') (u ''find''))) = []
   \<and> printed (events (main (example_world (Some []) None 200 []) (u ''scan.txt'') (u ''find'')))
       = [checking_line, key_file_not_found_line, please_set_line]
   \<and> (\<exists>a b. please_set_line = a @ env_var_name @ b)
   \<and> (\<exists>a b. please_set_line = a @ api_key_file_path @ b)
   \<and> files_after (main (example_world (Some []) None 200 []) (u ''scan.txt'') (u ''find''))
       = files (example_world (Some []) None 200 [])
   \<and> uncaught (main (example_world (Some []) None 200 []) (u ''scan.txt'') (u ''find'')) = None"
  using no_credential_no_request [of "example_world (Some []) None 200 []" "u ''scan.txt''" "u ''find''"]
  by (simp add: example_world_def api_key_file_path_def u_def)

section \<open>The query tool: the request\<close>

text \<open>
  C3, as stated: for every file content \<open>T\<close> and instruction \<open>Q\<close> the request body
  contains \<open>T\<close> and \<open>Q\<close> verbatim, with no escaping. The body is
  \<open>json.dumps(payload)\<close> (line 140), and \<open>json.dumps\<close> escapes the prompt as a
  JSON string. For the content that is a single newline the prompt holds the newline,
  but the body holds no newline character at all.
\<close>

theorem body_has_no_raw_newline_counterexample:
  "build_prompt [] [10] = prompt_head @ [] @ prompt_middle @ [10] @ prompt_tail
   \<and> 10 \<notin> set (data (build_request (u ''KEY'') (build_prompt [] [10])))"
  by (simp add: build_prompt_def data_build_request newline_not_in_escape_str
      newline_not_around_prompt)

text \<open>
  C3, amended: the input file is opened in text mode, so the text read from it is its
  content with every carriage return followed by a newline, and every other carriage
  return, turned into a newline; a content without carriage returns is read as it is.
  The run sends one request. Its prompt is the fixed template with \<open>Q\<close> and the
  text read put in as they are, whatever their length and characters, and it is the text
  of the single part of the payload. The request body is the serialised payload, in
  which \<open>Q\<close> and the text read stand at their places of the template as JSON string
  contents: escaped by \<open>json.dumps\<close>, and therefore verbatim when they consist of
  printable ASCII characters other than the double quote and the backslash.
\<close>

theorem prompt_holds_content_and_query:
  assumes "fst (load_api_key w) = Some k"
    and "files w f = Some (File (Inr T))"
  shows "fst (read_results_file w f) = Some (universal_newlines T)
   \<and> (13 \<notin> set T \<longrightarrow> universal_newlines T = T)
   \<and> http_requests (events (main w f Q))
       = [build_request k (build_prompt Q (universal_newlines T))]
   \<and> build_prompt Q (universal_newlines T)
       = prompt_head @ Q @ prompt_middle @ universal_newlines T @ prompt_tail
   \<and> payload (build_prompt Q (universal_newlines T))
       = JObj [(u ''contents'',
                JArr [JObj [(u ''role'', JStr (u ''user'')),
                            (u ''parts'',
                             JArr [JObj [(u ''text'',
                                          JStr (prompt_head @ Q @ prompt_middle
                                                @ universal_newlines T @ prompt_tail))]])]]),
               (u ''generationConfig'', generation_config)]
   \<and> data (build_request k (build_prompt Q (universal_newlines T)))
       = body_before_prompt @ escape_str prompt_head @ escape_str Q
         @ escape_str prompt_middle @ escape_str (universal_newlines T)
         @ escape_str prompt_tail @ body_after_prompt
   \<and> ((\<forall>c\<in>set Q. 32 \<le> c \<and> c \<le> 126 \<and> c \<noteq> 34 \<and> c \<noteq> 92) \<longrightarrow> escape_str Q = Q)
   \<and> ((\<forall>c\<in>set T. 32 \<le> c \<and> c \<le> 126 \<and> c \<noteq> 34 \<and> c \<noteq> 92)
        \<longrightarrow> escape_str (universal_newlines T) = T)"
proof -
  note r = read_results_file_text [OF assms(2)]
  have "http_requests (events (main w f Q))
          = [build_request k (build_prompt Q (universal_newlines T))]"
    using main_query [OF assms(1) r, of Q]
    by (simp add: load_api_key_requests query_gemini_requests)
  moreover have "escape_str (universal_newlines T) = T"
    if "\<forall>c\<in>set T. 32 \<le> c \<and> c \<le> 126 \<and> c \<noteq> 34 \<and> c \<noteq> 92"
  proof -
    from that have "13 \<notin> set T" by auto
    with that show ?thesis by (simp add: universal_newlines_id plain_escape_str)
  qed
  ultimately show ?thesis
    using r
    by (simp add: build_prompt_def payload_def chat_history_def data_build_request
        escape_str_append plain_escape_str universal_newlines_id)
qed

theorem prompt_holds_content_and_query_witness:
  "data (build_request (u ''KEY'') (build_prompt (u ''find'') (u ''22/tcp open ssh'')))
     = body_before_prompt @ escape_str prompt_head @ u ''find''
       @ escape_str prompt_middle @ u ''22/tcp open ssh'' @ escape_str prompt_tail
       @ body_after_prompt
   \<and> http_requests (events (main crlf_world (u ''scan.txt'') (u ''find'')))
       = [build_request (u ''KEY'')
            (build_prompt (u ''find'')
               (u ''22/tcp'' @ [10] @ u ''80/tcp'' @ [10] @ u ''443/tcp''))]
   \<and> data (build_request (u ''KEY'')
              (build_prompt (u ''find'')
                 (u ''22/tcp'' @ [10] @ u ''80/tcp'' @ [10] @ u ''443/tcp'')))
       = body_before_prompt @ escape_str prompt_head @ u ''find''
         @ escape_str prompt_middle
         @ u ''22/tcp'' @ [92, 110] @ u ''80/tcp'' @ [92, 110] @ u ''443/tcp''
         @ escape_str prompt_tail @ body_after_prompt"
proof -
  have q: "\<forall>c\<in>set (u ''find''). 32 \<le> c \<and> c \<le> 126 \<and> c \<noteq> 34 \<and> c \<noteq> 92"
    by (simp add: u_def)
  have t: "\<forall>c\<in>set (u ''22/tcp open ssh''). 32 \<le> c \<and> c \<le> 126 \<and> c \<noteq> 34 \<and> c \<noteq> 92"
    by (simp add: u_def)
  have n: "13 \<notin> set (u ''22/tcp open ssh'')"
    by (simp add: u_def)
  note plain = prompt_holds_content_and_query
                 [OF key_world [of 200 "[]"]
                     scan_world_file [of "Some (u ''KEY'')" None 200 "[]"],
                  of "u ''find''"]
  note crlf = prompt_holds_content_and_query
                [OF crlf_world_key crlf_world_file, of "u ''find''"]
  have eq: "escape_str (u ''find'') = u ''find''"
    using plain q by blast
  have un: "universal_newlines (u ''22/tcp open ssh'') = u ''22/tcp open ssh''"
    using plain n by blast
  have "escape_str (universal_newlines (u ''22/tcp open ssh'')) = u ''22/tcp open ssh''"
    using plain t by blast
  then have et: "escape_str (u ''22/tcp open ssh'') = u ''22/tcp open ssh''"
    by (simp only: un)
  have a: "data (build_request (u ''KEY'') (build_prompt (u ''find'') (u ''22/tcp open ssh'')))
             = body_before_prompt @ escape_str prompt_head @ u ''find''
               @ escape_str prompt_middle @ u ''22/tcp open ssh'' @ escape_str prompt_tail
               @ body_after_prompt"
    using plain [THEN conjunct2, THEN conjunct2, THEN conjunct2, THEN conjunct2,
                 THEN conjunct2, THEN conjunct1]
    by (simp only: eq un et)
  have b: "http_requests (events (main crlf_world (u ''scan.txt'') (u ''find'')))
             = [build_request (u ''KEY'')
                  (build_prompt (u ''find'')
                     (u ''22/tcp'' @ [10] @ u ''80/tcp'' @ [10] @ u ''443/tcp''))]"
    using crlf [THEN conjunct2, THEN conjunct2, THEN conjunct1]
    by (simp only: crlf_scan_text)
  have c: "data (build_request (u ''KEY'')
                  (build_prompt (u ''find'')
                     (u ''22/tcp'' @ [10] @ u ''80/tcp'' @ [10] @ u ''443/tcp'')))
             = body_before_prompt @ escape_str prompt_head @ u ''find''
               @ escape_str prompt_middle
               @ u ''22/tcp'' @ [92, 110] @ u ''80/tcp'' @ [92, 110] @ u ''443/tcp''
               @ escape_str prompt_tail @ body_after_prompt"
    using crlf [THEN conjunct2, THEN conjunct2, THEN conjunct2, THEN conjunct2,
                THEN conjunct2, THEN conjunct1]
    by (simp only: crlf_scan_text crlf_scan_escaped eq append_assoc)
  from a b c show ?thesis by blast
qed

section \<open>The query tool: the answer\<close>

text \<open>
  C2. When the text embedded in a successful answer is the array of the specification's
  example and the log file can be written, the text decodes to one record, the log file
  \<open><input-file-path>.log\<close> holds that array serialised with an indentation of two
  spaces, and the terminal shows, after the line about the log file and the header: the
  record's name and description, \<open>None suggested.\<close> for the Metasploit modules, the
  bullet \<open>- Nmap\<close> under the tools, and \<open>None provided.\<close> for the exploit links.
\<close>

theorem nmap_answer_logged_and_rendered:
  assumes "fst (load_api_key w) = Some k"
    and "fst (read_results_file w f) = Some content"
    and "server w (build_request k (build_prompt q content)) = Inr r"
    and "raise_for_status r = None"
    and "and_then (response_json r) result_text = Inr (JStr nmap_answer)"
    and "files w (f @ u ''.log'') \<noteq> Some Directory"
    and "write_fails w (f @ u ''.log'') = None"
  shows "json_loads nmap_answer = Inr nmap_records
         \<and> json_dumps_indent 2 nmap_records = nmap_log
         \<and> files_after (main w f q) = (files w)(f @ u ''.log'' \<mapsto> File (Inr nmap_log))
         \<and> printed (events (main w f q))
             = printed (snd (load_api_key w))
               @ [sending_line,
                  BLUE @ u ''Raw JSON response saved to: '' @ f @ u ''.log'' @ RESET,
                  analysis_header,
                  [10] @ BOLD @ GREEN @ u ''Vulnerability 1: X'' @ RESET,
                  CYAN @ u ''  Description:'' @ RESET @ u '' Y'',
                  MAGENTA @ u ''  Metasploit Modules:'' @ RESET @ u '' None suggested.'',
                  BLUE @ u ''  Other Suggested Tools & Formats:'' @ RESET,
                  u ''    - Nmap'',
                  YELLOW @ u ''  Exploit Links:'' @ RESET @ u '' None provided.'',
                  analysis_complete]
         \<and> uncaught (main w f q) = None"
proof -
  have t: "and_then (and_then (response_json r) result_text) loads_value = Inr nmap_records"
    using assms(5) by (simp add: and_then_def nmap_answer_decodes)
  have "after_response w f r
          = ([OpenWrite (f @ u ''.log''),
              Print (BLUE @ u ''Raw JSON response saved to: '' @ f @ u ''.log'' @ RESET)]
             @ fst (render nmap_records),
             (files w)(f @ u ''.log'' \<mapsto> File (Inr nmap_log)),
             None)"
    using assms(4,6,7) t
    by (simp add: after_response_def save_log_def nmap_records_indented nmap_records_rendered)
  then have "query_gemini w f k (build_prompt q content)
               = \<lparr>events = Post (build_request k (build_prompt q content))
                     # [OpenWrite (f @ u ''.log''),
                        Print (BLUE @ u ''Raw JSON response saved to: '' @ f @ u ''.log''
                               @ RESET)]
                     @ fst (render nmap_records),
                  files_after = (files w)(f @ u ''.log'' \<mapsto> File (Inr nmap_log)),
                  uncaught = None\<rparr>"
    using assms(3) by (simp add: query_gemini_def)
  then show ?thesis
    using main_query [OF assms(1,2), of q]
    by (simp add: nmap_answer_decodes nmap_records_indented nmap_records_rendered)
qed

theorem nmap_answer_logged_and_rendered_witness:
  "files_after (main (example_world (Some (u ''KEY'')) None 200 nmap_response)
                     (u ''scan.txt'') (u ''find'')) (u ''scan.txt.log'')
     = Some (File (Inr nmap_log))
   \<and> printed (events (main (example_world (Some (u ''KEY'')) None 200 nmap_response)
                             (u ''scan.txt'') (u ''find'')))
       = [sending_line,
          BLUE @ u ''Raw JSON response saved to: '' @ u ''scan.txt'' @ u ''.log'' @ RESET,
          analysis_header,
          [10] @ BOLD @ GREEN @ u ''Vulnerability 1: X'' @ RESET,
          CYAN @ u ''  Description:'' @ RESET @ u '' Y'',
          MAGENTA @ u ''  Metasploit Modules:'' @ RESET @ u '' None suggested.'',
          BLUE @ u ''  Other Suggested Tools & Formats:'' @ RESET,
          u ''    - Nmap'',
          YELLOW @ u ''  Exploit Links:'' @ RESET @ u '' None provided.'',
          analysis_complete]"
proof -
  let ?w = "example_world (Some (u ''KEY'')) None 200 nmap_response"
  let ?rq = "build_request (u ''KEY'') (build_prompt (u ''find'') (u ''22/tcp open ssh''))"
  let ?r = "\<lparr>status_code = 200, reason = u ''OK'', resp_url = url ?rq,
             resp_text = nmap_response\<rparr>"
  have s: "server ?w ?rq = Inr ?r" by (simp add: example_world_def)
  have ok: "raise_for_status ?r = None" by (simp add: raise_for_status_def)
  have nd: "files ?w (u ''scan.txt'' @ u ''.log'') \<noteq> Some Directory"
    by (simp add: example_world_def u_def api_key_file_path_def)
  have wf: "write_fails ?w (u ''scan.txt'' @ u ''.log'') = None"
    by (simp add: example_world_def)
  have l: "u ''scan.txt'' @ u ''.log'' = u ''scan.txt.log''" by (simp add: u_def)
  show ?thesis
    using nmap_answer_logged_and_rendered
            [OF key_world scan_world s ok nmap_response_text nd wf] l
    by (simp add: key_world_events)
qed




text \<open>
  C10, as stated: every status outside 200 to 299 is an error that writes no log file.
  \<open>raise_for_status\<close> raises for the statuses 400 to 599 only. An answer with status
  300 and a well-formed envelope around the text \<open>[]\<close> is processed like a
  successful one: the log file is opened, written and reported, and the analysis header
  is printed.
\<close>

theorem non_2xx_counterexample:
  "server redirect_world
       (build_request (u ''KEY'') (build_prompt (u ''find'') (u ''22/tcp open ssh'')))
     = Inr \<lparr>status_code = 300, reason = u ''Multiple Choices'',
            resp_url = url (build_request (u ''KEY'')
                              (build_prompt (u ''find'') (u ''22/tcp open ssh''))),
            resp_text = empty_answer\<rparr>
   \<and> files redirect_world (u ''scan.txt.log'') = None
   \<and> files_after (main redirect_world (u ''scan.txt'') (u ''find'')) (u ''scan.txt.log'')
       = Some (File (Inr (u ''[]'')))
   \<and> opened_for_writing (events (main redirect_world (u ''scan.txt'') (u ''find'')))
       = [u ''scan.txt.log'']
   \<and> printed (events (main redirect_world (u ''scan.txt'') (u ''find'')))
       = [sending_line,
          BLUE @ u ''Raw JSON response saved to: '' @ u ''scan.txt.log'' @ RESET,
          analysis_header, no_vulnerabilities_line]"
proof -
  let ?rq = "build_request (u ''KEY'') (build_prompt (u ''find'') (u ''22/tcp open ssh''))"
  let ?r = "\<lparr>status_code = 300, reason = u ''Multiple Choices'', resp_url = url ?rq,
             resp_text = empty_answer\<rparr>"
  have k: "load_api_key redirect_world = (Some (u ''KEY''), [])"
    by (simp add: load_api_key_def redirect_world_def example_world_def u_def)
  have f: "fst (read_results_file redirect_world (u ''scan.txt'')) = Some (u ''22/tcp open ssh'')"
    by (simp add: read_results_file_def redirect_world_def example_world_def u_def)
  have s: "server redirect_world ?rq = Inr ?r"
    by (simp add: redirect_world_def)
  have ok: "raise_for_status ?r = None" by (simp add: raise_for_status_def)
  have e: "and_then (response_json ?r) result_text = Inr (JStr (u ''[]''))"
    unfolding empty_answer_def by (rule envelope_answer_text)
  have "loads_value (JStr (u ''[]'')) = Inr (JArr [])"
    by (simp add: empty_array)
  with e have t: "and_then (and_then (response_json ?r) result_text) loads_value = Inr (JArr [])"
    by (simp add: and_then_def)
  have nolog: "files redirect_world (u ''scan.txt.log'') = None"
    by (simp add: redirect_world_def example_world_def u_def api_key_file_path_def)
  have wf: "write_fails redirect_world (u ''scan.txt.log'') = None"
    by (simp add: redirect_world_def example_world_def)
  have ar: "after_response redirect_world (u ''scan.txt'') ?r
              = ([OpenWrite (u ''scan.txt.log''),
                  Print (BLUE @ u ''Raw JSON response saved to: '' @ u ''scan.txt.log'' @ RESET),
                  Print analysis_header, Print no_vulnerabilities_line],
                 (files redirect_world)(u ''scan.txt.log'' \<mapsto> File (Inr (u ''[]''))),
                 None)"
    using ok t nolog wf
    by (simp add: after_response_def save_log_def render_def json_dumps_indent_def u_def)
  have q: "query_gemini redirect_world (u ''scan.txt'') (u ''KEY'')
             (build_prompt (u ''find'') (u ''22/tcp open ssh''))
           = \<lparr>events = Post ?rq # [OpenWrite (u ''scan.txt.log''),
                  Print (BLUE @ u ''Raw JSON response saved to: '' @ u ''scan.txt.log'' @ RESET),
                  Print analysis_header, Print no_vulnerabilities_line],
              files_after = (files redirect_world)(u ''scan.txt.log'' \<mapsto> File (Inr (u ''[]''))),
              uncaught = None\<rparr>"
    using s ar by (simp add: query_gemini_def)
  have k1: "fst (load_api_key redirect_world) = Some (u ''KEY'')" using k by simp
  show ?thesis
    using main_query [OF k1 f, of "u ''find''"] q k s nolog by simp
qed

text \<open>
  C10, amended: when the answer has a status from 400 to 599, or its envelope lacks one
  of the keys on the path to the text, the run prints the matching error (the
  communication error with the text of the \<open>HTTPError\<close>, or the missing key and
  the full response), prints no record, opens no file for writing, and leaves the file
  system as it was. A status outside 200 to 299 that is not in 400 to 599 is not an
  error for the tool.
\<close>

theorem error_paths_write_nothing:
  assumes "fst (load_api_key w) = Some k"
    and "fst (read_results_file w f) = Some content"
    and "server w (build_request k (build_prompt q content)) = Inr r"
    and "(400 \<le> status_code r \<and> status_code r < 600)
         \<or> (raise_for_status r = None \<and> response_json r = Inr env
             \<and> result_text env = Inl (KeyError m))"
  shows "printed (events (main w f q))
           = printed (snd (load_api_key w)) @ sending_line
             # (case raise_for_status r of
                  Some e \<Rightarrow>
                    [RED @ [10] @ u ''Error communicating with Gemini API: '' @ exc_str e
                     @ RESET,
                     YELLOW @ u ''Please check your internet connection or API key.'' @ RESET]
                | None \<Rightarrow>
                    [RED @ [10] @ u ''Error: Missing expected key in API response - '' @ m
                     @ RESET,
                     YELLOW @ u ''Full API response: '' @ json_dumps_indent 2 env @ RESET])
         \<and> opened_for_writing (events (main w f q)) = []
         \<and> files_after (main w f q) = files w
         \<and> uncaught (main w f q) = None"
  using assms(4)
proof
  assume st: "400 \<le> status_code r \<and> status_code r < 600"
  then have "\<exists>msg. raise_for_status r = Some (RequestException msg)"
    by (simp add: raise_for_status_def)
  then obtain msg where e: "raise_for_status r = Some (RequestException msg)" ..
  then have "after_response w f r = ([], files w, Some (RequestException msg))"
    by (simp add: after_response_def)
  then have "query_gemini w f k (build_prompt q content)
               = \<lparr>events = Post (build_request k (build_prompt q content))
                            # fst (handler r (RequestException msg)),
                  files_after = files w,
                  uncaught = snd (handler r (RequestException msg))\<rparr>"
    using assms(3) by (simp add: query_gemini_def)
  then show ?thesis
    using main_query [OF assms(1,2), of q] load_api_key_no_write [of w] e
    by (simp add: handler_def)
next
  assume km: "raise_for_status r = None \<and> response_json r = Inr env
              \<and> result_text env = Inl (KeyError m)"
  then have "after_response w f r = ([], files w, Some (KeyError m))"
    by (simp add: after_response_def and_then_def)
  then have "query_gemini w f k (build_prompt q content)
               = \<lparr>events = Post (build_request k (build_prompt q content))
                            # fst (handler r (KeyError m)),
                  files_after = files w,
                  uncaught = snd (handler r (KeyError m))\<rparr>"
    using assms(3) by (simp add: query_gemini_def)
  then show ?thesis
    using main_query [OF assms(1,2), of q] load_api_key_no_write [of w] km
    by (simp add: handler_def)
qed

theorem error_paths_write_nothing_witness:
  "(printed (events (main (example_world (Some (u ''KEY'')) None 200 (u ''{}''))
                          (u ''scan.txt'') (u ''find'')))
      = [sending_line,
         RED @ [10] @ u ''Error: Missing expected key in API response - ''
         @ repr_str (u ''candidates'') @ RESET,
         YELLOW @ u ''Full API response: '' @ u ''{}'' @ RESET]
     \<and> opened_for_writing (events (main (example_world (Some (u ''KEY'')) None 200 (u ''{}''))
                                         (u ''scan.txt'') (u ''find''))) = []
     \<and> files_after (main (example_world (Some (u ''KEY'')) None 200 (u ''{}''))
                         (u ''scan.txt'') (u ''find''))
         = files (example_world (Some (u ''KEY'')) None 200 (u ''{}'')))
   \<and> (printed (events (main (example_world (Some (u ''KEY'')) None 404 [])
                            (u ''scan.txt'') (u ''find'')))
        = [sending_line,
           RED @ [10] @ u ''Error communicating with Gemini API: ''
           @ py_str_int 404 @ u '' Client Error: '' @ u ''OK'' @ u '' for url: ''
           @ apiUrl (u ''KEY'') @ RESET,
           YELLOW @ u ''Please check your internet connection or API key.'' @ RESET]
       \<and> opened_for_writing (events (main (example_world (Some (u ''KEY'')) None 404 [])
                                           (u ''scan.txt'') (u ''find''))) = []
       \<and> files_after (main (example_world (Some (u ''KEY'')) None 404 [])
                           (u ''scan.txt'') (u ''find''))
           = files (example_world (Some (u ''KEY'')) None 404 []))"
proof -
  let ?rq = "build_request (u ''KEY'') (build_prompt (u ''find'') (u ''22/tcp open ssh''))"
  let ?w = "example_world (Some (u ''KEY'')) None 200 (u ''{}'')"
  let ?r = "\<lparr>status_code = 200, reason = u ''OK'', resp_url = url ?rq, resp_text = u ''{}''\<rparr>"
  let ?w' = "example_world (Some (u ''KEY'')) None 404 []"
  let ?r' = "\<lparr>status_code = 404, reason = u ''OK'', resp_url = url ?rq, resp_text = []\<rparr>"
  have s: "server ?w ?rq = Inr ?r" by (simp add: example_world_def)
  have h: "(400 \<le> status_code ?r \<and> status_code ?r < 600)
           \<or> (raise_for_status ?r = None \<and> response_json ?r = Inr (JObj [])
               \<and> result_text (JObj []) = Inl (KeyError (repr_str (u ''candidates''))))"
    by (simp add: raise_for_status_def response_json_def empty_object result_text_def
        and_then_def)
  have s': "server ?w' ?rq = Inr ?r'" by (simp add: example_world_def)
  have h': "(400 \<le> status_code ?r' \<and> status_code ?r' < 600)
            \<or> (raise_for_status ?r' = None \<and> response_json ?r' = Inr JNull
                \<and> result_text JNull = Inl (KeyError []))"
    by simp
  show ?thesis
    using error_paths_write_nothing [OF key_world scan_world s h]
          error_paths_write_nothing [OF key_world scan_world s' h']
    by (simp add: key_world_events raise_for_status_def json_dumps_indent_def
        build_request_def)
qed

section \<open>The setup tool\<close>

text \<open>
  C8. \<open>install_dependencies\<close> always returns a boolean, and so does
  \<open>setup_api_key\<close> once a line has been typed at the prompt. When
  \<open>install_dependencies\<close> returns \<open>False\<close>, \<open>main_installation\<close> prints the
  failure and calls \<open>sys.exit(1)\<close>: the exit code is not zero. When
  \<open>install_dependencies\<close> returns \<open>True\<close> and \<open>setup_api_key\<close> returns
  \<open>False\<close>, it prints the warning as its last line and returns: the exit code is 0.
\<close>

theorem dependency_failure_exits_key_failure_warns:
  "(\<exists>b. fst (install_dependencies w) = Inr b)
   \<and> (stdin_line w \<noteq> None \<longrightarrow> (\<exists>b. fst (setup_api_key w) = Inr b))
   \<and> (fst (install_dependencies w) = Inr False \<longrightarrow>
        fst (main_installation w) = SysExit 1
        \<and> exit_code (fst (main_installation w)) \<noteq> 0
        \<and> last (snd (main_installation w)) = Print dependency_failure_line)
   \<and> (fst (install_dependencies w) = Inr True \<longrightarrow> fst (setup_api_key w) = Inr False \<longrightarrow>
        fst (main_installation w) = Returned
        \<and> exit_code (fst (main_installation w)) = 0
        \<and> last (snd (main_installation w)) = Print key_setup_issues_line)"
proof (intro conjI impI)
  show "\<exists>b. fst (install_dependencies w) = Inr b"
    by (simp add: install_dependencies_returns)
next
  assume "stdin_line w \<noteq> None"
  then obtain line where "stdin_line w = Some line" by auto
  then show "\<exists>b. fst (setup_api_key w) = Inr b"
    by (simp add: setup_api_key_returns)
next
  assume f: "fst (install_dependencies w) = Inr False"
  show "fst (main_installation w) = SysExit 1"
    and "exit_code (fst (main_installation w)) \<noteq> 0"
    and "last (snd (main_installation w)) = Print dependency_failure_line"
    by (simp_all add: main_installation_cases(1) [OF f])
next
  assume t: "fst (install_dependencies w) = Inr True" and f: "fst (setup_api_key w) = Inr False"
  show "fst (main_installation w) = Returned"
    and "exit_code (fst (main_installation w)) = 0"
    and "last (snd (main_installation w)) = Print key_setup_issues_line"
    by (simp_all add: main_installation_cases(2) [OF t f])
qed

theorem dependency_failure_exits_key_failure_warns_witness:
  "exit_code (fst (main_installation
       (example_setup_world (u ''linux'') False (Some (u ''KEY'')) every_command_fails))) = 1
   \<and> last (snd (main_installation
       (example_setup_world (u ''linux'') False (Some (u ''KEY'')) every_command_fails)))
       = Print dependency_failure_line
   \<and> exit_code (fst (main_installation
       (example_setup_world (u ''linux'') True (Some (u ''KEY'')) every_command_fails))) = 0
   \<and> last (snd (main_installation
       (example_setup_world (u ''linux'') True (Some (u ''KEY'')) every_command_fails)))
       = Print key_setup_issues_line"
proof -
  let ?w1 = "example_setup_world (u ''linux'') False (Some (u ''KEY'')) every_command_fails"
  let ?w2 = "example_setup_world (u ''linux'') True (Some (u ''KEY'')) every_command_fails"
  have i1: "fst (install_dependencies ?w1) = Inr False"
    by (simp add: install_dependencies_returns exit_ok_def example_setup_world_def
        every_command_fails_def)
  have i2: "fst (install_dependencies ?w2) = Inr True"
    by (simp add: install_dependencies_returns example_setup_world_def)
  have "stdin_line ?w2 = Some (u ''KEY'')" by (simp add: example_setup_world_def)
  then have s2: "fst (setup_api_key ?w2) = Inr False"
    by (simp add: setup_api_key_returns exit_ok_def example_setup_world_def
        every_command_fails_def)
  show ?thesis
    using dependency_failure_exits_key_failure_warns [of ?w1]
          dependency_failure_exits_key_failure_warns [of ?w2] i1 i2 s2
    by simp
qed

text \<open>
  C9. For a line typed at the prompt, \<open>setup_api_key\<close> returns \<open>True\<close> exactly
  when the stripped key is not empty, the fallback directory exists or \<open>mkdir\<close>
  succeeds, and the \<open>echo\<close> command that writes the fallback file succeeds. Neither
  the outcome of appending to the shell profile nor the outcome of the \<open>chmod\<close>
  command changes what it returns; in particular it returns \<open>True\<close> when only
  \<open>chmod\<close> fails.
\<close>

theorem setup_api_key_result:
  assumes "stdin_line w = Some line"
  shows "fst (setup_api_key w)
           = Inr (py_strip line \<noteq> []
                  \<and> (path_exists w api_key_dir \<or> exit_ok w mkdir_command True)
                  \<and> exit_ok w (echo_command w (py_strip line)) True)
         \<and> fst (setup_api_key (w\<lparr>append_fails := a\<rparr>)) = fst (setup_api_key w)
         \<and> fst (setup_api_key
                  (w\<lparr>subprocess_run :=
                        (subprocess_run w)(full_command w (chmod_command w) True := c)\<rparr>))
             = fst (setup_api_key w)"
proof (intro conjI)
  show r: "fst (setup_api_key w)
           = Inr (py_strip line \<noteq> []
                  \<and> (path_exists w api_key_dir \<or> exit_ok w mkdir_command True)
                  \<and> exit_ok w (echo_command w (py_strip line)) True)"
    by (rule setup_api_key_returns [OF assms])
  have "stdin_line (w\<lparr>append_fails := a\<rparr>) = Some line" using assms by simp
  from setup_api_key_returns [OF this] r
  show "fst (setup_api_key (w\<lparr>append_fails := a\<rparr>)) = fst (setup_api_key w)"
    by (simp add: exit_ok_def full_command_def echo_command_def fallback_file_def)
  let ?w = "w\<lparr>subprocess_run := (subprocess_run w)(full_command w (chmod_command w) True := c)\<rparr>"
  have "stdin_line ?w = Some line" using assms by simp
  from setup_api_key_returns [OF this] r chmod_command_differs [of w]
  show "fst (setup_api_key ?w) = fst (setup_api_key w)"
    by (simp add: exit_ok_def full_command_def echo_command_def fallback_file_def)
qed

theorem setup_api_key_result_witness:
  "fst (setup_api_key
         (example_setup_world (u ''linux'') True (Some (u '' KEY '')) only_chmod_fails))
     = Inr True
   \<and> \<not> exit_ok (example_setup_world (u ''linux'') True (Some (u '' KEY '')) only_chmod_fails)
          (chmod_command
             (example_setup_world (u ''linux'') True (Some (u '' KEY '')) only_chmod_fails))
          True"
proof -
  let ?w = "example_setup_world (u ''linux'') True (Some (u '' KEY '')) only_chmod_fails"
  have i: "stdin_line ?w = Some (u '' KEY '')" by (simp add: example_setup_world_def)
  have s: "py_strip (u '' KEY '') = u ''KEY''"
    by (simp add: py_strip_def u_def py_isspace_def)
  have ux: "is_unix ?w" by (simp add: is_unix_def example_setup_world_def startswith_def)
  have m: "exit_ok ?w mkdir_command True"
    using ux
    by (simp add: exit_ok_def full_command_def example_setup_world_def only_chmod_fails_def
        mkdir_command_def api_key_dir_def json_dumps_def encode_basestring_ascii_def
        escape_str_def escape_char_def u_def)
  have e: "exit_ok ?w (echo_command ?w (u ''KEY'')) True"
    using ux
    by (simp add: exit_ok_def full_command_def example_setup_world_def only_chmod_fails_def
        echo_command_def fallback_file_def api_key_dir_def json_dumps_def
        encode_basestring_ascii_def escape_str_def escape_char_def u_def)
  have c: "\<not> exit_ok ?w (chmod_command ?w) True"
    using ux
    by (simp add: exit_ok_def full_command_def example_setup_world_def only_chmod_fails_def
        chmod_command_def fallback_file_def api_key_dir_def json_dumps_def
        encode_basestring_ascii_def escape_str_def escape_char_def u_def)
  have ne: "u ''KEY'' \<noteq> []" by (simp add: u_def)
  show ?thesis
    using setup_api_key_result [OF i, THEN conjunct1] s m e c ne by simp
qed

text \<open>
  C1 says that the credential cannot change the structure of the elevated command. On
  Linux, for the line \<open>x";id;echo "y\<close> typed at the prompt, \<open>setup_api_key\<close> hands
  to the shell the command line shown below. \<open>json.dumps\<close> has escaped the double
  quotes for the outer shell only: that shell reads one command of four words, the
  last being the argument of \<open>sh -c\<close>, and the elevated shell reads that argument as
  three commands. It runs \<open>id\<close>, and what it writes to the fallback file is \<open>y\<close>,
  not the credential. For comparison, a key of letters, digits, \<open>-\<close> and \<open>_\<close>
  gives the one command that was meant.
\<close>

theorem echo_command_injection:
  \<open>Run (full_command injecting_world (echo_command injecting_world injecting_key) True)
     \<in> set (snd (setup_api_key injecting_world))
   \<and> full_command injecting_world (echo_command injecting_world injecting_key) True
       = u ''sudo sh -c "echo '' @ [92] @ u ''"x'' @ [92] @ u ''";id;echo '' @ [92] @ u ''"y''
         @ [92] @ u ''" > /usr/share/vortexai/apikey.txt"''
   \<and> sh_commands (full_command injecting_world
                     (echo_command injecting_world injecting_key) True)
       = [[Word (u ''sudo''), Word (u ''sh''), Word (u ''-c''),
           Word (u ''echo "x";id;echo "y" > /usr/share/vortexai/apikey.txt'')]]
   \<and> sh_commands (u ''echo "x";id;echo "y" > /usr/share/vortexai/apikey.txt'')
       = [[Word (u ''echo''), Word (u ''x'')],
          [Word (u ''id'')],
          [Word (u ''echo''), Word (u ''y''), Great,
           Word (u ''/usr/share/vortexai/apikey.txt'')]]
   \<and> sh_commands (echo_command injecting_world (u ''AIzaSy-abc_123''))
       = [[Word (u ''echo''), Word (u ''AIzaSy-abc_123''), Great,
           Word (u ''/usr/share/vortexai/apikey.txt'')]]\<close>
proof (intro conjI)
  have ux: "is_unix injecting_world"
    by (simp add: is_unix_def injecting_world_def example_setup_world_def startswith_def)
  have k: "py_strip injecting_key = injecting_key"
    by (simp add: py_strip_def injecting_key_def u_def py_isspace_def)
  have i: "stdin_line injecting_world = Some injecting_key"
    by (simp add: injecting_world_def example_setup_world_def)
  have "injecting_key \<noteq> []" by (simp add: injecting_key_def u_def)
  with k have ne: "py_strip injecting_key \<noteq> []" by simp
  have d: "path_exists injecting_world api_key_dir \<or> exit_ok injecting_world mkdir_command True"
    by (simp add: exit_ok_def injecting_world_def example_setup_world_def
        every_command_succeeds_def)
  show "Run (full_command injecting_world (echo_command injecting_world injecting_key) True)
          \<in> set (snd (setup_api_key injecting_world))"
    using echo_command_is_run [OF i ne d] by (simp add: k)
  show fc: \<open>full_command injecting_world (echo_command injecting_world injecting_key) True
       = u ''sudo sh -c "echo '' @ [92] @ u ''"x'' @ [92] @ u ''";id;echo '' @ [92] @ u ''"y''
         @ [92] @ u ''" > /usr/share/vortexai/apikey.txt"''\<close>
    using ux
    by (simp add: full_command_def echo_command_def fallback_file_def api_key_dir_def
        injecting_key_def injecting_world_def example_setup_world_def json_dumps_def
        encode_basestring_ascii_def escape_str_def escape_char_def u_def)
  show \<open>sh_commands (full_command injecting_world
                     (echo_command injecting_world injecting_key) True)
       = [[Word (u ''sudo''), Word (u ''sh''), Word (u ''-c''),
           Word (u ''echo "x";id;echo "y" > /usr/share/vortexai/apikey.txt'')]]\<close>
    unfolding fc
    by (simp add: sh_commands_def u_def flush_def add_def opened_def)
  show \<open>sh_commands (u ''echo "x";id;echo "y" > /usr/share/vortexai/apikey.txt'')
       = [[Word (u ''echo''), Word (u ''x'')],
          [Word (u ''id'')],
          [Word (u ''echo''), Word (u ''y''), Great,
           Word (u ''/usr/share/vortexai/apikey.txt'')]]\<close>
    by (simp add: sh_commands_def u_def flush_def add_def opened_def)
  show "sh_commands (echo_command injecting_world (u ''AIzaSy-abc_123''))
       = [[Word (u ''echo''), Word (u ''AIzaSy-abc_123''), Great,
           Word (u ''/usr/share/vortexai/apikey.txt'')]]"
    by (simp add: sh_commands_def echo_command_def fallback_file_def api_key_dir_def
        injecting_world_def example_setup_world_def u_def flush_def add_def opened_def)
qed

end
